theory Spec2Isabelle
  imports Main
begin

section \<open>Typed arrays and strided views\<close>

text \<open>
  The layer \<^verbatim>\<open>ZeroPadding3D\<close> of \<^verbatim>\<open>src/layers/convolutional/ZeroPadding3D.js\<close> works on
  tensors whose storage is a JavaScript typed array seen through a strided view (the
  \<^verbatim>\<open>ndarray\<close> package). Shapes, strides, offsets and padding amounts are natural
  numbers: the padding specification is three pairs of non-negative integers and a shape
  is a sequence of extents.

  A \<^verbatim>\<open>Float32Array\<close> cell holds a number or NaN; the numbers are kept abstract
  (type \<open>'a\<close>), since the layer only copies them.
\<close>

datatype 'a f32 = F32 'a | NaN

text \<open>
  Reading a typed array out of range gives \<^verbatim>\<open>undefined\<close> (here \<open>None\<close>); writing
  out of range is ignored.
\<close>

definition ta_get :: "'a list \<Rightarrow> nat \<Rightarrow> 'a option" where
  "ta_get d p = (if p < length d then Some (d ! p) else None)"

definition ta_set :: "'a list \<Rightarrow> nat \<Rightarrow> 'a \<Rightarrow> 'a list" where
  "ta_set d p v = (if p < length d then d[p := v] else d)"

text \<open>
  Storing \<^verbatim>\<open>undefined\<close> into a typed array stores the array type's conversion of it:
  NaN for \<^verbatim>\<open>Float32Array\<close>, 0 for \<^verbatim>\<open>Int32Array\<close>. The conversion is the argument
  \<open>u\<close> of the functions below.
\<close>

definition coerce :: "'a \<Rightarrow> 'a option \<Rightarrow> 'a" where
  "coerce u v = (case v of None \<Rightarrow> u | Some w \<Rightarrow> w)"

record 'a ndarray =
  data :: "'a list"
  shape :: "nat list"
  stride :: "nat list"
  offset :: nat

text \<open>Row-major strides, as \<^verbatim>\<open>ndarray(data, shape)\<close> computes them.\<close>

fun rm_stride :: "nat list \<Rightarrow> nat list" where
  "rm_stride [] = []"
| "rm_stride (n # ns) = prod_list ns # rm_stride ns"

definition mk_ndarray :: "'a list \<Rightarrow> nat list \<Rightarrow> 'a ndarray" where
  "mk_ndarray d sh = \<lparr>data = d, shape = sh, stride = rm_stride sh, offset = 0\<rparr>"

text \<open>
  \<^verbatim>\<open>a.hi(i0, ...)\<close> sets the extents of the view, \<^verbatim>\<open>a.lo(i0, ...)\<close> moves its
  origin, \<^verbatim>\<open>a.transpose(p0, ...)\<close> permutes its axes; all three share the buffer of
  \<open>a\<close>. The library skips an argument that is not a number or is negative, which no
  natural number is. An extent that \<^verbatim>\<open>lo\<close> would make negative is an empty range
  in the library's loops, as the truncated difference is here.
\<close>

definition hi :: "'a ndarray \<Rightarrow> nat list \<Rightarrow> 'a ndarray" where
  "hi a his = a\<lparr>shape := his\<rparr>"

definition lo :: "'a ndarray \<Rightarrow> nat list \<Rightarrow> 'a ndarray" where
  "lo a los = a\<lparr>shape := map2 (-) (shape a) los,
                offset := offset a + sum_list (map2 (*) (stride a) los)\<rparr>"

definition transpose_nd :: "'a ndarray \<Rightarrow> nat list \<Rightarrow> 'a ndarray" where
  "transpose_nd a axes = a\<lparr>shape := map ((!) (shape a)) axes,
                           stride := map ((!) (stride a)) axes\<rparr>"

definition index :: "'a ndarray \<Rightarrow> nat list \<Rightarrow> nat" where
  "index a idx = offset a + sum_list (map2 (*) (stride a) idx)"

definition ndget :: "'a ndarray \<Rightarrow> nat list \<Rightarrow> 'a option" where
  "ndget a idx = ta_get (data a) (index a idx)"

text \<open>All index vectors of a shape, in the order of the nested loops.\<close>

fun indices :: "nat list \<Rightarrow> nat list list" where
  "indices [] = [[]]"
| "indices (n # ns) = concat (map (\<lambda>i. map ((#) i) (indices ns)) [0..<n])"

text \<open>
  \<^verbatim>\<open>ops.assign(dst, src)\<close> and \<^verbatim>\<open>ops.assigns(dst, v)\<close> of \<^verbatim>\<open>ndarray-ops\<close>: a loop
  over the shape of \<open>dst\<close>. The result is the buffer of \<open>dst\<close> after the loop; every
  view of that buffer sees it. The source is read from its own buffer, which the layer
  never shares with the destination.
\<close>

definition assign :: "'a \<Rightarrow> 'a ndarray \<Rightarrow> 'a ndarray \<Rightarrow> 'a list" where
  "assign u dst src =
     fold (\<lambda>idx d. ta_set d (index dst idx) (coerce u (ndget src idx)))
       (indices (shape dst)) (data dst)"

definition assigns :: "'a ndarray \<Rightarrow> 'a \<Rightarrow> 'a list" where
  "assigns dst v = fold (\<lambda>idx d. ta_set d (index dst idx) v) (indices (shape dst)) (data dst)"

section \<open>The tensor container\<close>

text \<open>
  Modelled from the spec: the class \<^verbatim>\<open>Tensor\<close> (\<^verbatim>\<open>src/Tensor.js\<close>) is not part of the
  sources at hand. A tensor owns a flat numeric buffer plus a shape (the field \<open>tensor\<close>),
  and optionally a GPU-resident texture mirror (\<open>glTexture\<close>, the texels row by row)
  with the bookkeeping of how the tensor was flattened into that 2D texture. The field
  \<open>arrayType\<close> is the typed array class of the buffer, given by its zero and by what it
  stores for \<^verbatim>\<open>undefined\<close>. The field \<open>oid\<close> is the identity of the object: two
  tensors made by two \<^verbatim>\<open>new Tensor\<close> expressions differ in it, and mutating a tensor
  keeps it.
\<close>

record 'a array_type =
  zero_elem :: 'a
  undef_elem :: 'a

definition Float32Array :: "('a::zero) f32 array_type" where
  "Float32Array = \<lparr>zero_elem = F32 0, undef_elem = NaN\<rparr>"

definition Int32Array :: "int array_type" where
  "Int32Array = \<lparr>zero_elem = 0, undef_elem = 0\<rparr>"

record 'a Tensor =
  oid :: nat
  arrayType :: "'a array_type"
  tensor :: "'a ndarray"
  originalShape :: "nat list option"
  indicesForReshaped :: "int ndarray option"
  is2DReshaped :: bool
  glTexture :: "'a list option"
  glTextureShape :: "nat list"

text \<open>
  Modelled from the spec: \<^verbatim>\<open>new Tensor(data, shape, {type})\<close>. With an empty \<open>data\<close>
  the buffer is allocated to the shape, fully zero-initialized; otherwise the buffer is
  \<open>data\<close>. The first argument is the identity of the new object.
\<close>

definition new_Tensor :: "nat \<Rightarrow> 'a list \<Rightarrow> nat list \<Rightarrow> 'a array_type \<Rightarrow> 'a Tensor" where
  "new_Tensor i d sh ty =
     \<lparr>oid = i,
      arrayType = ty,
      tensor = mk_ndarray (if d = [] then replicate (prod_list sh) (zero_elem ty) else d) sh,
      originalShape = None, indicesForReshaped = None, is2DReshaped = False,
      glTexture = None, glTextureShape = []\<rparr>"

text \<open>
  Modelled from the spec: the 2D texture encoding linearizes the buffer of the 4D tensor
  into a 2-dimensional grid, either row-major (\<^verbatim>\<open>reshapeTo2D\<close>: one row per position of
  the leading axes, one column per position of the last axis, the elements in the order of
  their index vectors, which is \<open>flatten\<close>) or square-tiled (\<^verbatim>\<open>reshapeTo2DSquare\<close>:
  the buffer of the tensor as it is stored, whatever the strides and the offset of the view
  are, copied cell by cell to the front of a zero-filled square, the smallest square with
  a cell for each element of the shape; the square has no room for a longer buffer's
  further cells). The encoding produces the per-element linear-offset table
  \<^verbatim>\<open>indicesForReshaped\<close> from the shape alone: for each element of the original
  tensor, its row-major position.
\<close>

definition flatten :: "'a \<Rightarrow> 'a ndarray \<Rightarrow> 'a list" where
  "flatten u a = map (\<lambda>idx. coerce u (ndget a idx)) (indices (shape a))"

definition squareDim :: "nat \<Rightarrow> nat" where
  "squareDim n = hd (filter (\<lambda>s. n \<le> s * s) [0..<Suc n])"

definition createIndicesFor2DReshaped :: "nat list \<Rightarrow> int ndarray" where
  "createIndicesFor2DReshaped sh = mk_ndarray (map int [0..<prod_list sh]) sh"

definition reshapeTo2D :: "'a Tensor \<Rightarrow> 'a Tensor" where
  "reshapeTo2D t =
     (let sh = shape (tensor t)
      in t\<lparr>tensor := mk_ndarray (flatten (undef_elem (arrayType t)) (tensor t))
                         [prod_list (butlast sh), last sh],
           originalShape := Some sh,
           indicesForReshaped := Some (createIndicesFor2DReshaped sh),
           is2DReshaped := True\<rparr>)"

definition reshapeTo2DSquare :: "'a Tensor \<Rightarrow> 'a Tensor" where
  "reshapeTo2DSquare t =
     (let sh = shape (tensor t);
          s = squareDim (prod_list sh);
          buf = data (tensor t)
      in t\<lparr>tensor := mk_ndarray
                         (take (s * s)
                            (buf @ replicate (s * s - length buf) (zero_elem (arrayType t))))
                         [s, s],
           originalShape := Some sh,
           indicesForReshaped := Some (createIndicesFor2DReshaped sh)\<rparr>)"

text \<open>
  Modelled from the spec: GPU upload (\<^verbatim>\<open>createGLTexture\<close>), GPU download
  (\<^verbatim>\<open>transferFromGLTexture\<close>) and the decoding of a downloaded texture from its 2D
  encoding back into the logical 4D shape (\<^verbatim>\<open>reshapeFrom2D\<close>,
  \<^verbatim>\<open>reshapeFrom2DSquare\<close>).
\<close>

definition createGLTexture :: "'a Tensor \<Rightarrow> 'a Tensor" where
  "createGLTexture t = t\<lparr>glTexture := Some (data (tensor t)), glTextureShape := shape (tensor t)\<rparr>"

definition transferFromGLTexture :: "'a Tensor \<Rightarrow> 'a Tensor" where
  "transferFromGLTexture t =
     (case glTexture t of
        None \<Rightarrow> t
      | Some tex \<Rightarrow> t\<lparr>tensor := mk_ndarray tex (glTextureShape t)\<rparr>)"

definition reshapeFrom2D :: "'a Tensor \<Rightarrow> 'a Tensor" where
  "reshapeFrom2D t =
     (case originalShape t of
        None \<Rightarrow> t
      | Some sh \<Rightarrow> t\<lparr>tensor := mk_ndarray (take (prod_list sh) (data (tensor t))) sh\<rparr>)"

definition reshapeFrom2DSquare :: "'a Tensor \<Rightarrow> 'a Tensor" where
  "reshapeFrom2DSquare t =
     (case originalShape t of
        None \<Rightarrow> t
      | Some sh \<Rightarrow> t\<lparr>tensor := mk_ndarray (take (prod_list sh) (data (tensor t))) sh\<rparr>)"

section \<open>The GPU execution engine\<close>

text \<open>
  Modelled from the spec: \<^verbatim>\<open>webgl2.runProgram\<close> with the program
  \<^verbatim>\<open>mapInput.glsl\<close>, neither of which is part of the sources at hand. The program
  writes, for each output texel, the value at the source offset named by the index map, or
  zero if the sentinel \<open>-1\<close> is present. The offset is split into a row and a column of
  the source texture with the uniform \<^verbatim>\<open>inputCols\<close>. Output texture and index-map
  texture have the same shape, so a texel of one and the texel of the other at the same
  coordinates have the same position \<open>t\<close>, counted row by row. A fetch outside a texture
  gives zero.
\<close>

definition texels :: "'a Tensor \<Rightarrow> 'a list" where
  "texels t = (case glTexture t of None \<Rightarrow> [] | Some tex \<Rightarrow> tex)"

definition texelFetch :: "'a Tensor \<Rightarrow> int \<Rightarrow> int \<Rightarrow> 'a" where
  "texelFetch t col row =
     (if 0 \<le> row \<and> 0 \<le> col \<and> nat row < glTextureShape t ! 0 \<and> nat col < glTextureShape t ! 1
      then coerce (zero_elem (arrayType t))
             (ta_get (texels t) (nat row * (glTextureShape t ! 1) + nat col))
      else zero_elem (arrayType t))"

definition mapInput :: "'a Tensor \<Rightarrow> int Tensor \<Rightarrow> nat \<Rightarrow> nat \<Rightarrow> 'a" where
  "mapInput x m inputCols t =
     (let i = coerce 0 (ta_get (texels m) t)
      in if i \<noteq> - 1
         then texelFetch x (i mod int inputCols) (i div int inputCols)
         else zero_elem (arrayType x))"

definition runProgram :: "'a Tensor \<Rightarrow> 'a Tensor \<Rightarrow> int Tensor \<Rightarrow> nat \<Rightarrow> 'a Tensor" where
  "runProgram out x m inputCols =
     out\<lparr>glTexture := Some (map (mapInput x m inputCols) [0..<prod_list (glTextureShape out)])\<rparr>"

section \<open>The layer\<close>

text \<open>
  The fields of a \<^verbatim>\<open>ZeroPadding3D\<close> instance that the methods read or write
  (\<^verbatim>\<open>layerClass\<close> and \<^verbatim>\<open>description\<close> are labels that no method reads).
  Modelled from the spec: the base class \<^verbatim>\<open>Layer\<close> is not part of the sources at
  hand; it gives the instance the ambient capability flag \<open>gpu\<close>, which selects the
  execution path and is taken here from the attributes, and the list \<open>outbound\<close> of
  downstream consumers, empty when the instance is the terminal stage of its pipeline.
  \<open>mapInputProgram\<close> tells whether the program has been compiled. \<open>allocs\<close> counts
  the \<^verbatim>\<open>new Tensor\<close> expressions the instance has evaluated and numbers the objects
  they make.
\<close>

record 'a ZeroPadding3D =
  padding :: "nat list list"
  dataFormat :: string
  gpu :: bool
  outbound :: "string list"
  inputShape :: "nat list"
  outputShape :: "nat list"
  output_tensor :: "'a f32 Tensor option"
  indexMap :: "int Tensor option"
  mapInputProgram :: bool
  allocs :: nat

text \<open>The three accepted forms of the attribute \<^verbatim>\<open>padding\<close>.\<close>

datatype padding_attr = PadInt nat | PadTriple "nat list" | PadPairs "nat list list"

record attrs =
  padding_attr :: "padding_attr option"
  data_format :: "string option"
  gpu_attr :: bool

definition constructor :: "attrs \<Rightarrow> 'a ZeroPadding3D" where
  "constructor a =
     \<lparr>padding =
        (case (case padding_attr a of None \<Rightarrow> PadPairs [[1, 1], [1, 1], [1, 1]] | Some p \<Rightarrow> p) of
           PadPairs pp \<Rightarrow> pp
         | PadTriple p \<Rightarrow> [[p ! 0, p ! 0], [p ! 1, p ! 1], [p ! 2, p ! 2]]
         | PadInt p \<Rightarrow> [[p, p], [p, p], [p, p]]),
      dataFormat = (case data_format a of None \<Rightarrow> ''channels_last'' | Some f \<Rightarrow> f),
      gpu = gpu_attr a,
      outbound = [],
      inputShape = [],
      outputShape = [],
      output_tensor = None,
      indexMap = None,
      mapInputProgram = gpu_attr a,
      allocs = 0\<rparr>"

text \<open>
  \<^verbatim>\<open>_callCPU(x)\<close>. The method updates the instance and the caller's tensor \<open>x\<close>; both
  are returned. The input is a tensor of rank 4. The view
  \<^verbatim>\<open>this.output.tensor.hi(...).lo(...)\<close> shares the buffer of \<^verbatim>\<open>this.output.tensor\<close>,
  so the buffer that \<^verbatim>\<open>ops.assign\<close> leaves is the buffer of the output.
\<close>

definition callCPU ::
  "('a::zero) ZeroPadding3D \<Rightarrow> 'a f32 Tensor \<Rightarrow> 'a ZeroPadding3D \<times> 'a f32 Tensor" where
  "callCPU l x =
     (let cf = (dataFormat l = ''channels_first'');
          x1 = (if cf then x\<lparr>tensor := transpose_nd (tensor x) [1, 2, 3, 0]\<rparr> else x);
          ish = shape (tensor x1);
          p = padding l;
          osh = [ish ! 0 + p ! 0 ! 0 + p ! 0 ! 1,
                 ish ! 1 + p ! 1 ! 0 + p ! 1 ! 1,
                 ish ! 2 + p ! 2 ! 0 + p ! 2 ! 1,
                 ish ! 3];
          out = new_Tensor (allocs l) [] osh Float32Array;
          view = lo (hi (tensor out)
                       [ish ! 0 + p ! 0 ! 0, ish ! 1 + p ! 1 ! 0, ish ! 2 + p ! 2 ! 0, ish ! 3])
                    [p ! 0 ! 0, p ! 1 ! 0, p ! 2 ! 0, 0];
          out1 = out\<lparr>tensor := (tensor out)\<lparr>data := assign NaN view (tensor x1)\<rparr>\<rparr>;
          x2 = (if cf then x1\<lparr>tensor := transpose_nd (tensor x1) [3, 0, 1, 2]\<rparr> else x1);
          out2 = (if cf then out1\<lparr>tensor := transpose_nd (tensor out1) [3, 0, 1, 2]\<rparr> else out1)
      in (l\<lparr>inputShape := ish, outputShape := osh, output_tensor := Some out2,
             allocs := Suc (allocs l)\<rparr>, x2))"

text \<open>
  \<^verbatim>\<open>_createIndexMap(indicesForReshaped, is2DReshaped)\<close>. The method reads the fields
  \<^verbatim>\<open>data\<close> and \<^verbatim>\<open>shape\<close> of its first argument, which fails (\<open>None\<close>) when
  the argument is \<^verbatim>\<open>undefined\<close>. \<open>fillIndexMap\<close> is the index tensor as the two
  assignments leave it, before it is encoded into a texture.
\<close>

definition sliceStart :: "'a ZeroPadding3D \<Rightarrow> nat list" where
  "sliceStart l =
     (let p = padding l
      in if dataFormat l = ''channels_first''
         then [0, p ! 0 ! 0, p ! 1 ! 0, p ! 2 ! 0]
         else [p ! 0 ! 0, p ! 1 ! 0, p ! 2 ! 0, 0])"

definition sliceEnd :: "'a ZeroPadding3D \<Rightarrow> nat list" where
  "sliceEnd l =
     (let p = padding l; ish = inputShape l
      in if dataFormat l = ''channels_first''
         then [ish ! 0, ish ! 1 + p ! 0 ! 0, ish ! 2 + p ! 1 ! 0, ish ! 3 + p ! 2 ! 0]
         else [ish ! 0 + p ! 0 ! 0, ish ! 1 + p ! 1 ! 0, ish ! 2 + p ! 2 ! 0, ish ! 3])"

definition fillIndexMap :: "'a ZeroPadding3D \<Rightarrow> int ndarray \<Rightarrow> int Tensor" where
  "fillIndexMap l indicesForReshaped' =
     (let indices' = new_Tensor (allocs l) (data indicesForReshaped') (shape indicesForReshaped')
                       Int32Array;
          m = new_Tensor (Suc (allocs l)) [] (outputShape l) Int32Array;
          m1 = m\<lparr>tensor := (tensor m)\<lparr>data := assigns (tensor m) (- 1)\<rparr>\<rparr>
      in m1\<lparr>tensor := (tensor m1)
             \<lparr>data := assign 0 (lo (hi (tensor m1) (sliceEnd l)) (sliceStart l))
                        (tensor indices')\<rparr>\<rparr>)"

definition createIndexMap ::
  "'a ZeroPadding3D \<Rightarrow> int ndarray option \<Rightarrow> bool \<Rightarrow> 'a ZeroPadding3D option" where
  "createIndexMap l indicesForReshaped' is2DReshaped' =
     (if indexMap l \<noteq> None then Some l
      else case indicesForReshaped' of
        None \<Rightarrow> None
      | Some tbl \<Rightarrow>
          (let m = fillIndexMap l tbl;
               m1 = (if is2DReshaped' then reshapeTo2D m else reshapeTo2DSquare m)
           in Some (l\<lparr>indexMap := Some (createGLTexture m1), allocs := allocs l + 2\<rparr>)))"

text \<open>
  \<^verbatim>\<open>_callGPU(x)\<close>. Reading an element of \<^verbatim>\<open>x.originalShape\<close> fails when the
  field is \<^verbatim>\<open>undefined\<close>, and running a program that was never compiled fails.
  \<open>readback\<close> is the block of the GPU to CPU data transfer at the end of the method.
\<close>

definition readback :: "'a Tensor \<Rightarrow> 'a Tensor" where
  "readback out1 =
     (let out3 = transferFromGLTexture out1
      in if is2DReshaped out3 then reshapeFrom2D out3 else reshapeFrom2DSquare out3)"

definition callGPU ::
  "('a::zero) ZeroPadding3D \<Rightarrow> 'a f32 Tensor \<Rightarrow> ('a ZeroPadding3D \<times> 'a f32 Tensor) option" where
  "callGPU l x =
     (let x1 = (if glTexture x = None then createGLTexture (reshapeTo2DSquare x) else x)
      in case originalShape x1 of
        None \<Rightarrow> None
      | Some ish \<Rightarrow>
          (let p = padding l;
               osh = (if dataFormat l = ''channels_first''
                      then [ish ! 0,
                            ish ! 1 + p ! 0 ! 0 + p ! 0 ! 1,
                            ish ! 2 + p ! 1 ! 0 + p ! 1 ! 1,
                            ish ! 3 + p ! 2 ! 0 + p ! 2 ! 1]
                      else [ish ! 0 + p ! 0 ! 0 + p ! 0 ! 1,
                            ish ! 1 + p ! 1 ! 0 + p ! 1 ! 1,
                            ish ! 2 + p ! 2 ! 0 + p ! 2 ! 1,
                            ish ! 3]);
               l1 = l\<lparr>inputShape := ish, outputShape := osh\<rparr>
           in case createIndexMap l1 (indicesForReshaped x1) (is2DReshaped x1) of
             None \<Rightarrow> None
           | Some l2 \<Rightarrow>
               (case indexMap l2 of
                  None \<Rightarrow> None
                | Some m \<Rightarrow>
                    (let l3 = (case output_tensor l2 of
                                 Some out \<Rightarrow> l2
                               | None \<Rightarrow>
                                   (let out = new_Tensor (allocs l2) [] (outputShape l2) Float32Array;
                                        out1 = (if is2DReshaped x1 then reshapeTo2D out
                                                else reshapeTo2DSquare out)
                                    in l2\<lparr>output_tensor := Some (createGLTexture out1),
                                          allocs := Suc (allocs l2)\<rparr>))
                     in case output_tensor l3 of
                       None \<Rightarrow> None
                     | Some out \<Rightarrow>
                         if \<not> mapInputProgram l3 then None
                         else
                           (let out1 = runProgram out x1 m (glTextureShape x1 ! 1);
                                out2 = (if outbound l3 = [] then readback out1 else out1)
                            in Some (l3\<lparr>output_tensor := Some out2\<rparr>, x1))))))"

text \<open>\<^verbatim>\<open>call(x)\<close> returns \<^verbatim>\<open>this.output\<close>, here next to the instance and the input.\<close>

definition call ::
  "('a::zero) ZeroPadding3D \<Rightarrow> 'a f32 Tensor
   \<Rightarrow> ('a ZeroPadding3D \<times> 'a f32 Tensor \<times> 'a f32 Tensor option) option" where
  "call l x =
     (case (if gpu l then callGPU l x else Some (callCPU l x)) of
        None \<Rightarrow> None
      | Some (l', x') \<Rightarrow> Some (l', x', output_tensor l'))"

text \<open>
  A sequence of invocations of one instance: the states of the instance after each
  invocation. The field \<open>output_tensor\<close> of a state is what that invocation returned.
\<close>

fun invocations ::
  "('a::zero) ZeroPadding3D \<Rightarrow> 'a f32 Tensor list \<Rightarrow> 'a ZeroPadding3D list option" where
  "invocations l [] = Some []"
| "invocations l (x # xs) =
     (case call l x of
        None \<Rightarrow> None
      | Some (l', x', r) \<Rightarrow>
          (case invocations l' xs of
             None \<Rightarrow> None
           | Some ls \<Rightarrow> Some (l' # ls)))"

section \<open>Index spaces\<close>

text \<open>
  The notions the statements below are written in. An index vector is inside a shape when
  each component is below the extent of its axis. \<open>rm_index\<close> is the position of an
  index vector in a row-major buffer of a shape. \<open>in_region los sh j\<close> says that \<open>j\<close>
  lies in the block of shape \<open>sh\<close> whose origin is \<open>los\<close>. A view is valid when every
  index vector of its shape addresses a cell of its buffer.
\<close>

definition in_box :: "nat list \<Rightarrow> nat list \<Rightarrow> bool" where
  "in_box idx sh = list_all2 (<) idx sh"

definition rm_index :: "nat list \<Rightarrow> nat list \<Rightarrow> nat" where
  "rm_index sh idx = sum_list (map2 (*) (rm_stride sh) idx)"

definition in_region :: "nat list \<Rightarrow> nat list \<Rightarrow> nat list \<Rightarrow> bool" where
  "in_region los sh j = (list_all2 (\<le>) los j \<and> in_box (map2 (-) j los) sh)"

definition valid_nd :: "'a ndarray \<Rightarrow> bool" where
  "valid_nd a = list_all (\<lambda>idx. index a idx < length (data a)) (indices (shape a))"

text \<open>
  A view is contiguous when it is the row-major view of its whole buffer, as
  \<^verbatim>\<open>new Tensor(data, shape)\<close> makes it: the position of an element in the buffer is the
  row-major position of its index vector, and the buffer has no other cells.
\<close>

definition contiguous :: "'a ndarray \<Rightarrow> bool" where
  "contiguous a =
     (stride a = rm_stride (shape a) \<and> offset a = 0 \<and> length (data a) = prod_list (shape a))"

text \<open>
  The zero-padded tensor in the words of the specification: the element at \<open>j\<close> of the
  result of padding \<open>a\<close>, where the copy of \<open>a\<close> has its origin at \<open>los\<close>, is the
  element of \<open>a\<close> at \<open>j - los\<close> inside the copied region and zero outside. For an
  instance, the origin is \<open>pad_origin\<close>, the amounts before each spatial axis, and the
  shape of the result is \<open>padded_shape\<close>, the input shape enlarged by both amounts on
  each spatial axis; the channel axis is first under channels-first and last otherwise.
\<close>

definition padded :: "('a::zero) f32 ndarray \<Rightarrow> nat list \<Rightarrow> nat list \<Rightarrow> 'a f32" where
  "padded a los j =
     (if in_region los (shape a) j then coerce NaN (ndget a (map2 (-) j los)) else F32 0)"

definition pad_origin :: "'a ZeroPadding3D \<Rightarrow> nat list" where
  "pad_origin l =
     (if dataFormat l = ''channels_first''
      then [0, padding l ! 0 ! 0, padding l ! 1 ! 0, padding l ! 2 ! 0]
      else [padding l ! 0 ! 0, padding l ! 1 ! 0, padding l ! 2 ! 0, 0])"

definition padded_shape :: "'a ZeroPadding3D \<Rightarrow> nat list \<Rightarrow> nat list" where
  "padded_shape l sh =
     (let p = padding l
      in if dataFormat l = ''channels_first''
         then [sh ! 0, sh ! 1 + p ! 0 ! 0 + p ! 0 ! 1, sh ! 2 + p ! 1 ! 0 + p ! 1 ! 1,
               sh ! 3 + p ! 2 ! 0 + p ! 2 ! 1]
         else [sh ! 0 + p ! 0 ! 0 + p ! 0 ! 1, sh ! 1 + p ! 1 ! 0 + p ! 1 ! 1,
               sh ! 2 + p ! 2 ! 0 + p ! 2 ! 1, sh ! 3])"

text \<open>
  What the GPU path relies on. An input is ready for the GPU when it carries a texture
  and the bookkeeping of its encoding for the logical shape \<open>sh\<close>; its host view is
  the tensor that a download and decoding of its texture give. An input of the GPU path
  of logical shape \<open>sh\<close> is a contiguous host tensor of that shape, which the path
  encodes itself, or a tensor that is ready for the GPU; its logical tensor is the host
  tensor, or the host view of the texture.
\<close>

definition gpu_ready :: "('a::zero) f32 Tensor \<Rightarrow> nat list \<Rightarrow> bool" where
  "gpu_ready x sh =
     (glTexture x \<noteq> None \<and> originalShape x = Some sh \<and>
      indicesForReshaped x = Some (createIndicesFor2DReshaped sh) \<and>
      arrayType x = Float32Array \<and> length (glTextureShape x) = 2 \<and>
      prod_list sh \<le> glTextureShape x ! 0 * glTextureShape x ! 1 \<and>
      prod_list sh \<le> length (texels x))"

definition host_view :: "'a Tensor \<Rightarrow> 'a ndarray" where
  "host_view x =
     (case originalShape x of
        None \<Rightarrow> tensor x
      | Some sh \<Rightarrow> mk_ndarray (take (prod_list sh) (texels x)) sh)"

definition gpu_input :: "('a::zero) f32 Tensor \<Rightarrow> nat list \<Rightarrow> bool" where
  "gpu_input x sh =
     (if glTexture x = None
      then arrayType x = Float32Array \<and> shape (tensor x) = sh \<and> contiguous (tensor x)
      else gpu_ready x sh)"

definition logical :: "'a Tensor \<Rightarrow> 'a ndarray" where
  "logical x = (if glTexture x = None then tensor x else host_view x)"

text \<open>
  The caches of an instance fit inputs of shape \<open>ish\<close> when the index map names, for
  each element of the padded shape, the texture offset of its source element or the
  sentinel, and the output buffer is encoded for the padded shape.
\<close>

definition index_map_for :: "'a ZeroPadding3D \<Rightarrow> nat list \<Rightarrow> int Tensor \<Rightarrow> bool" where
  "index_map_for l ish m =
     list_all
       (\<lambda>j. ta_get (texels m) (rm_index (padded_shape l ish) j) =
              Some (if in_region (pad_origin l) ish j
                    then int (rm_index ish (map2 (-) j (pad_origin l)))
                    else - 1))
       (indices (padded_shape l ish))"

definition output_buffer_for :: "'a ZeroPadding3D \<Rightarrow> nat list \<Rightarrow> 'b Tensor \<Rightarrow> bool" where
  "output_buffer_for l ish out =
     (originalShape out = Some (padded_shape l ish) \<and>
      prod_list (padded_shape l ish) \<le> prod_list (glTextureShape out))"

definition cache_ok :: "'a ZeroPadding3D \<Rightarrow> nat list \<Rightarrow> bool" where
  "cache_ok l ish =
     (case indexMap l of
        None \<Rightarrow> False
      | Some m \<Rightarrow>
          (case output_tensor l of
             None \<Rightarrow> False
           | Some out \<Rightarrow> index_map_for l ish m \<and> output_buffer_for l ish out))"

section \<open>Concrete scenarios\<close>

text \<open>
  Two inputs of shape \<open>[2,2,2,1]\<close>, one filled with 1s and one with the numbers 1 to 8,
  a view of the second with its two middle axes exchanged (same shape, strides
  \<open>[4,1,2,1]\<close>), an input of shape \<open>[1,1,1,1]\<close>, a table of linear offsets for the shape
  \<open>[2,2,2,1]\<close>, and layers with the padding \<open>[[1,0],[0,1],[0,0]]\<close>. \<open>elem_at j\<close> reads
  the element at \<open>j\<close> of a tensor in host memory, \<open>after_callGPU l x\<close> is the instance
  after a GPU invocation (the instance itself when the invocation fails), and
  \<open>gpu_output l x\<close> and \<open>cpu_output l x\<close> are the output tensors that \<^verbatim>\<open>_callGPU\<close> and
  \<^verbatim>\<open>_callCPU\<close> leave on the instance (none when the GPU invocation fails).
\<close>

definition ones_input :: "int f32 Tensor" where
  "ones_input = new_Tensor 0 (replicate 8 (F32 1)) [2, 2, 2, 1] Float32Array"

definition ramp_input :: "int f32 Tensor" where
  "ramp_input = new_Tensor 0 (map F32 [1, 2, 3, 4, 5, 6, 7, 8]) [2, 2, 2, 1] Float32Array"

definition small_input :: "int f32 Tensor" where
  "small_input = new_Tensor 0 [F32 9] [1, 1, 1, 1] Float32Array"

definition strided_input :: "int f32 Tensor" where
  "strided_input = ramp_input\<lparr>tensor := transpose_nd (tensor ramp_input) [0, 2, 1, 3]\<rparr>"

definition example_table :: "int ndarray" where
  "example_table = mk_ndarray [10, 11, 12, 13, 14, 15, 16, 17] [2, 2, 2, 1]"

definition example_layer :: "bool \<Rightarrow> string \<Rightarrow> int ZeroPadding3D" where
  "example_layer g f =
     constructor \<lparr>padding_attr = Some (PadPairs [[1, 0], [0, 1], [0, 0]]),
                  data_format = Some f, gpu_attr = g\<rparr>"

definition elem_at :: "nat list \<Rightarrow> 'a Tensor \<Rightarrow> 'a option" where
  "elem_at j t = ndget (tensor t) j"

definition after_callGPU ::
  "('a::zero) ZeroPadding3D \<Rightarrow> 'a f32 Tensor \<Rightarrow> 'a ZeroPadding3D" where
  "after_callGPU l x = (case callGPU l x of None \<Rightarrow> l | Some (l', x') \<Rightarrow> l')"

definition gpu_output ::
  "('a::zero) ZeroPadding3D \<Rightarrow> 'a f32 Tensor \<Rightarrow> 'a f32 Tensor option" where
  "gpu_output l x = (case callGPU l x of None \<Rightarrow> None | Some (l', x') \<Rightarrow> output_tensor l')"

definition cpu_output ::
  "('a::zero) ZeroPadding3D \<Rightarrow> 'a f32 Tensor \<Rightarrow> 'a f32 Tensor option" where
  "cpu_output l x = output_tensor (fst (callCPU l x))"

section \<open>Facts about index spaces and typed arrays\<close>

lemma length_indices: "length (indices sh) = prod_list sh"
  by (induction sh) (simp_all add: length_concat comp_def sum_list_triv)

lemma set_indices: "set (indices sh) = {idx. in_box idx sh}"
  unfolding in_box_def by (induction sh) (auto simp: list_all2_Cons2)

lemma nth_concat_uniform:
  "\<forall>xs\<in>set xss. length xs = m \<Longrightarrow> i < length xss \<Longrightarrow> j < m \<Longrightarrow> concat xss ! (i * m + j) = xss ! i ! j"
proof (induction xss arbitrary: i)
  case Nil then show ?case by simp
next
  case (Cons a xss)
  show ?case
  proof (cases i)
    case 0 then show ?thesis using Cons.prems by (simp add: nth_append)
  next
    case (Suc k)
    then show ?thesis using Cons.prems Cons.IH[of k] by (simp add: nth_append)
  qed
qed

lemma rm_index_less: "in_box idx sh \<Longrightarrow> rm_index sh idx < prod_list sh"
  unfolding in_box_def rm_index_def
proof (induction sh arbitrary: idx)
  case Nil then show ?case by simp
next
  case (Cons n ns)
  then obtain i js where idx: "idx = i # js" "i < n" "list_all2 (<) js ns"
    by (auto simp: list_all2_Cons2)
  let ?m = "prod_list ns"
  have r: "sum_list (map2 (*) (rm_stride ns) js) < ?m" using Cons.IH idx by simp
  have "?m * Suc i \<le> ?m * n" using idx(2) by (intro mult_le_mono2) simp
  then have "?m * i + ?m \<le> ?m * n" by simp
  with r show ?case using idx by (simp add: mult.commute)
qed

lemma nth_indices: "in_box idx sh \<Longrightarrow> indices sh ! rm_index sh idx = idx"
proof (induction sh arbitrary: idx)
  case Nil then show ?case by (simp add: in_box_def rm_index_def)
next
  case (Cons n ns)
  then obtain i js where idx: "idx = i # js" "i < n" "in_box js ns"
    by (auto simp: list_all2_Cons2 in_box_def)
  let ?m = "prod_list ns"
  have r: "rm_index ns js < ?m" using rm_index_less idx by simp
  have e: "rm_index (n # ns) idx = i * ?m + rm_index ns js"
    using idx by (simp add: rm_index_def mult.commute)
  have "concat (map (\<lambda>i. map ((#) i) (indices ns)) [0..<n]) ! (i * ?m + rm_index ns js)
        = map (\<lambda>i. map ((#) i) (indices ns)) [0..<n] ! i ! rm_index ns js"
    by (rule nth_concat_uniform) (use idx r in \<open>auto simp: length_indices\<close>)
  then show ?case using idx r Cons.IH[of js] e by (simp add: length_indices)
qed

lemma rm_index_inj: "in_box idx sh \<Longrightarrow> in_box idx' sh \<Longrightarrow> rm_index sh idx = rm_index sh idx' \<Longrightarrow> idx = idx'"
  by (metis nth_indices)

lemma length_fold_ta_set:
  "length (fold (\<lambda>i d. ta_set d (f i) (g i)) xs d) = length d"
  by (induction xs arbitrary: d) (auto simp: ta_set_def)

lemma fold_ta_set_other:
  "\<forall>i\<in>set xs. f i \<noteq> p \<Longrightarrow> ta_get (fold (\<lambda>i d. ta_set d (f i) (g i)) xs d) p = ta_get d p"
  by (induction xs arbitrary: d) (auto simp: ta_set_def ta_get_def)

lemma fold_ta_set_hit:
  "inj_on f (set xs) \<Longrightarrow> i \<in> set xs \<Longrightarrow> f i < length d \<Longrightarrow>
   ta_get (fold (\<lambda>i d. ta_set d (f i) (g i)) xs d) (f i) = Some (g i)"
proof (induction xs arbitrary: d)
  case Nil then show ?case by simp
next
  case (Cons a xs)
  have inj: "inj_on f (set xs)" using Cons.prems(1) by (simp add: inj_on_def)
  have len: "f i < length (ta_set d (f a) (g a))" using Cons.prems(3) by (simp add: ta_set_def)
  show ?case
  proof (cases "i \<in> set xs")
    case True
    then show ?thesis using Cons.IH[OF inj True len] by simp
  next
    case False
    then have ia: "i = a" using Cons.prems(2) by simp
    have "\<forall>k\<in>set xs. f k \<noteq> f i" using Cons.prems(1) False ia by (auto simp: inj_on_def)
    then have "ta_get (fold (\<lambda>i d. ta_set d (f i) (g i)) xs (ta_set d (f a) (g a))) (f i)
               = ta_get (ta_set d (f a) (g a)) (f i)"
      by (rule fold_ta_set_other)
    moreover have "ta_get (ta_set d (f a) (g a)) (f i) = Some (g i)"
      using ia Cons.prems(3) by (simp add: ta_set_def ta_get_def)
    ultimately show ?thesis by simp
  qed
qed

lemma sum_list_map2_add:
  "length los = length idx \<Longrightarrow>
   sum_list (map2 (*) st (map2 (+) los idx)) = sum_list (map2 (*) st los) + sum_list (map2 (*) st (idx::nat list))"
proof (induction st arbitrary: los idx)
  case Nil then show ?case by simp
next
  case (Cons s st)
  then show ?case by (cases los; cases idx) (auto simp: algebra_simps)
qed

lemma in_box_length: "in_box idx sh \<Longrightarrow> length idx = length sh"
  by (simp add: in_box_def list_all2_lengthD)

lemma index_view:
  "length los = length idx \<Longrightarrow>
   index (lo (hi (mk_ndarray d osh) his) los) idx = rm_index osh (map2 (+) los idx)"
  by (simp add: index_def lo_def hi_def mk_ndarray_def rm_index_def sum_list_map2_add)

lemma shape_view: "shape (lo (hi a his) los) = map2 (-) his los"
  by (simp add: lo_def hi_def)

lemma data_view: "data (lo (hi (mk_ndarray d osh) his) los) = d"
  by (simp add: lo_def hi_def mk_ndarray_def)

lemma shift_in_box:
  "length his = length osh \<Longrightarrow> length los = length osh \<Longrightarrow> list_all2 (\<le>) his osh \<Longrightarrow>
   in_box idx (map2 (-) his los) \<Longrightarrow> in_box (map2 (+) los idx) osh"
  by (fastforce simp: in_box_def list_all2_conv_all_nth)

lemma shift_inj:
  "length idx = length los \<Longrightarrow> length idx' = length los \<Longrightarrow>
   map2 (+) los idx = map2 (+) los idx' \<Longrightarrow> idx = (idx'::nat list)"
proof (rule nth_equalityI)
  assume a: "length idx = length los" "length idx' = length los" "map2 (+) los idx = map2 (+) los idx'"
  show "length idx = length idx'" using a by simp
  fix i assume i: "i < length idx"
  have "map2 (+) los idx ! i = los ! i + idx ! i" using a(1) i by simp
  moreover have "map2 (+) los idx' ! i = los ! i + idx' ! i" using a(1,2) i by simp
  ultimately show "idx ! i = idx' ! i" using a(3) by simp
qed

lemma in_region_shift:
  "in_region los sh j \<Longrightarrow> map2 (+) los (map2 (-) j los) = j"
  by (auto simp: in_region_def in_box_def list_all2_conv_all_nth intro!: nth_equalityI)

lemma shift_in_region:
  "length los = length sh \<Longrightarrow> in_box idx sh \<Longrightarrow> in_region los sh (map2 (+) los idx)"
  by (auto simp: in_region_def in_box_def list_all2_conv_all_nth)

lemma length_assign: "length (assign u dst src) = length (data dst)"
  by (simp add: assign_def length_fold_ta_set)

lemma length_assigns: "length (assigns dst v) = length (data dst)"
  by (simp add: assigns_def length_fold_ta_set)

lemma assign_view_get:
  assumes len: "length d = prod_list osh"
    and his: "length his = length osh" "list_all2 (\<le>) his osh"
    and los: "length los = length osh"
    and j: "in_box j osh"
  shows "ta_get (assign u (lo (hi (mk_ndarray d osh) his) los) src) (rm_index osh j) =
         Some (if in_region los (map2 (-) his los) j then coerce u (ndget src (map2 (-) j los))
               else d ! rm_index osh j)"
proof -
  let ?sh = "map2 (-) his los"
  let ?v = "lo (hi (mk_ndarray d osh) his) los"
  let ?f = "\<lambda>idx. index ?v idx"
  let ?g = "\<lambda>idx. coerce u (ndget src idx)"
  have lsh: "length ?sh = length osh" using his los by simp
  have f_eq: "?f idx = rm_index osh (map2 (+) los idx)" if "in_box idx ?sh" for idx
    using that los lsh in_box_length[OF that] by (simp add: index_view)
  have box: "in_box (map2 (+) los idx) osh" if "in_box idx ?sh" for idx
    using shift_in_box[OF his(1) los his(2) that] .
  have A: "assign u ?v src = fold (\<lambda>idx d. ta_set d (?f idx) (?g idx)) (indices ?sh) d"
    by (simp add: assign_def shape_view data_view)
  have inj: "inj_on ?f (set (indices ?sh))"
  proof (rule inj_onI)
    fix a b assume ab: "a \<in> set (indices ?sh)" "b \<in> set (indices ?sh)" "?f a = ?f b"
    then have ia: "in_box a ?sh" and ib: "in_box b ?sh" by (simp_all add: set_indices)
    have "rm_index osh (map2 (+) los a) = rm_index osh (map2 (+) los b)"
      using ab(3) f_eq[OF ia] f_eq[OF ib] by simp
    then have "map2 (+) los a = map2 (+) los b"
      using rm_index_inj[OF box[OF ia] box[OF ib]] by simp
    then show "a = b"
      using shift_inj[of a los b] in_box_length[OF ia] in_box_length[OF ib] lsh los by simp
  qed
  show ?thesis
  proof (cases "in_region los ?sh j")
    case True
    let ?i = "map2 (-) j los"
    have ii: "in_box ?i ?sh" using True by (simp add: in_region_def)
    have fi: "?f ?i = rm_index osh j" using f_eq[OF ii] in_region_shift[OF True] by simp
    have "ta_get (fold (\<lambda>idx d. ta_set d (?f idx) (?g idx)) (indices ?sh) d) (?f ?i) = Some (?g ?i)"
      by (rule fold_ta_set_hit[OF inj]) (use ii fi rm_index_less[OF j] len in \<open>simp_all add: set_indices\<close>)
    then show ?thesis using True A fi by simp
  next
    case False
    have "\<forall>idx\<in>set (indices ?sh). ?f idx \<noteq> rm_index osh j"
    proof
      fix idx assume "idx \<in> set (indices ?sh)"
      then have ii: "in_box idx ?sh" by (simp add: set_indices)
      show "?f idx \<noteq> rm_index osh j"
      proof
        assume "?f idx = rm_index osh j"
        then have "map2 (+) los idx = j"
          using f_eq[OF ii] rm_index_inj[OF box[OF ii] j] by simp
        moreover have "in_region los ?sh (map2 (+) los idx)"
          using shift_in_region[OF _ ii] lsh los by simp
        ultimately show False using False by simp
      qed
    qed
    then have "ta_get (fold (\<lambda>idx d. ta_set d (?f idx) (?g idx)) (indices ?sh) d) (rm_index osh j)
               = ta_get d (rm_index osh j)"
      by (rule fold_ta_set_other)
    then show ?thesis using False A rm_index_less[OF j] len by (simp add: ta_get_def)
  qed
qed

lemma index_mk_ndarray: "index (mk_ndarray d sh) idx = rm_index sh idx"
  by (simp add: index_def mk_ndarray_def rm_index_def)

lemma mk_ndarray_sel:
  "data (mk_ndarray d sh) = d" "shape (mk_ndarray d sh) = sh"
  "stride (mk_ndarray d sh) = rm_stride sh" "offset (mk_ndarray d sh) = 0"
  by (simp_all add: mk_ndarray_def)

lemma assigns_get:
  assumes len: "length d = prod_list osh" and j: "in_box j osh"
  shows "ta_get (assigns (mk_ndarray d osh) v) (rm_index osh j) = Some v"
proof -
  let ?f = "rm_index osh"
  have A: "assigns (mk_ndarray d osh) v = fold (\<lambda>idx d. ta_set d (?f idx) v) (indices osh) d"
    by (simp add: assigns_def index_mk_ndarray mk_ndarray_sel)
  have inj: "inj_on ?f (set (indices osh))"
    by (rule inj_onI) (simp add: set_indices rm_index_inj)
  have "ta_get (fold (\<lambda>idx d. ta_set d (?f idx) v) (indices osh) d) (?f j) = Some v"
    by (rule fold_ta_set_hit[OF inj]) (use j rm_index_less[OF j] len in \<open>simp_all add: set_indices\<close>)
  then show ?thesis using A by simp
qed

section \<open>The CPU path\<close>

lemma transpose_round_trip:
  "length (shape a) = 4 \<Longrightarrow> length (stride a) = 4 \<Longrightarrow>
   transpose_nd (transpose_nd a [1, 2, 3, 0]) [3, 0, 1, 2] = a"
  by (cases a) (auto simp: transpose_nd_def length_Suc_conv eval_nat_numeral)

lemma transpose_round_trip2:
  "length (shape a) = 4 \<Longrightarrow> length (stride a) = 4 \<Longrightarrow>
   transpose_nd (transpose_nd a [3, 0, 1, 2]) [1, 2, 3, 0] = a"
  by (cases a) (auto simp: transpose_nd_def length_Suc_conv eval_nat_numeral)

lemma ndget_mk_ndarray: "ndget (mk_ndarray d sh) j = ta_get d (rm_index sh j)"
  by (simp add: ndget_def index_mk_ndarray mk_ndarray_sel)

lemma mk_ndarray_data_update: "(mk_ndarray d sh)\<lparr>data := d'\<rparr> = mk_ndarray d' sh"
  by (simp add: mk_ndarray_def)

lemma pad_get:
  assumes "length his = length osh" "list_all2 (\<le>) his osh" "length los = length osh"
    and "in_box j osh"
  shows "ndget (mk_ndarray (assign u (lo (hi (mk_ndarray (replicate (prod_list osh) z) osh) his) los) src) osh) j
         = Some (if in_region los (map2 (-) his los) j then coerce u (ndget src (map2 (-) j los)) else z)"
proof -
  have "replicate (prod_list osh) z ! rm_index osh j = z"
    using rm_index_less[OF assms(4)] by simp
  then show ?thesis
    using assign_view_get[of "replicate (prod_list osh) z" osh his los j u src] assms
    by (simp add: ndget_mk_ndarray)
qed

lemma callCPU_cl_output:
  assumes "dataFormat l \<noteq> ''channels_first''"
    and "shape (tensor x) = [s0, s1, s2, s3]"
    and "padding l = [[b0, a0], [b1, a1], [b2, a2]]"
  shows "\<exists>out. output_tensor (fst (callCPU l x)) = Some out \<and>
     tensor out = mk_ndarray
       (assign NaN (lo (hi (mk_ndarray (replicate (prod_list [s0 + b0 + a0, s1 + b1 + a1, s2 + b2 + a2, s3]) (F32 0))
                              [s0 + b0 + a0, s1 + b1 + a1, s2 + b2 + a2, s3])
                          [s0 + b0, s1 + b1, s2 + b2, s3]) [b0, b1, b2, 0]) (tensor x))
       [s0 + b0 + a0, s1 + b1 + a1, s2 + b2 + a2, s3]"
  using assms
  by (simp add: callCPU_def Let_def new_Tensor_def Float32Array_def mk_ndarray_data_update)

text \<open>
  Claim C1. On the CPU path in channels-last order, for an input of rank 4 whose view is
  valid and a padding specification \<open>[[b0,a0],[b1,a1],[b2,a2]]\<close>: the output, read at
  the position of an input element shifted by \<open>b0\<close>, \<open>b1\<close>, \<open>b2\<close> along the three
  spatial axes, holds that element; every other element of the output is zero.
\<close>

theorem callCPU_copy_region:
  assumes cl: "dataFormat l \<noteq> ''channels_first''"
    and sh: "shape (tensor x) = [s0, s1, s2, s3]"
    and p: "padding l = [[b0, a0], [b1, a1], [b2, a2]]"
    and v: "valid_nd (tensor x)"
  shows "\<exists>out. output_tensor (fst (callCPU l x)) = Some out \<and>
    (\<forall>i0 i1 i2 i3. i0 < s0 \<and> i1 < s1 \<and> i2 < s2 \<and> i3 < s3 \<longrightarrow>
       ndget (tensor out) [b0 + i0, b1 + i1, b2 + i2, i3] = ndget (tensor x) [i0, i1, i2, i3]) \<and>
    (\<forall>j0 j1 j2 j3. j0 < s0 + b0 + a0 \<and> j1 < s1 + b1 + a1 \<and> j2 < s2 + b2 + a2 \<and> j3 < s3 \<and>
         \<not> (b0 \<le> j0 \<and> j0 < b0 + s0 \<and> b1 \<le> j1 \<and> j1 < b1 + s1 \<and> b2 \<le> j2 \<and> j2 < b2 + s2) \<longrightarrow>
       ndget (tensor out) [j0, j1, j2, j3] = Some (F32 0))"
proof -
  let ?osh = "[s0 + b0 + a0, s1 + b1 + a1, s2 + b2 + a2, s3]"
  let ?his = "[s0 + b0, s1 + b1, s2 + b2, s3]"
  let ?los = "[b0, b1, b2, 0]"
  obtain out where out: "output_tensor (fst (callCPU l x)) = Some out"
    and t: "tensor out = mk_ndarray (assign NaN (lo (hi (mk_ndarray (replicate (prod_list ?osh) (F32 0)) ?osh) ?his) ?los) (tensor x)) ?osh"
    using callCPU_cl_output[OF cl sh p] by blast
  have get: "ndget (tensor out) j = Some (if in_region ?los (map2 (-) ?his ?los) j
               then coerce NaN (ndget (tensor x) (map2 (-) j ?los)) else F32 0)"
    if "in_box j ?osh" for j
    unfolding t by (rule pad_get) (use that in simp_all)
  have vx: "ndget (tensor x) [i0, i1, i2, i3] = Some (data (tensor x) ! index (tensor x) [i0, i1, i2, i3])"
    if "i0 < s0" "i1 < s1" "i2 < s2" "i3 < s3" for i0 i1 i2 i3
  proof -
    have "in_box [i0, i1, i2, i3] (shape (tensor x))"
      using that sh by (simp add: in_box_def)
    then have "[i0, i1, i2, i3] \<in> set (indices (shape (tensor x)))"
      unfolding set_indices by simp
    then show ?thesis using v by (simp add: valid_nd_def list_all_iff ndget_def ta_get_def)
  qed
  have copy: "ndget (tensor out) [b0 + i0, b1 + i1, b2 + i2, i3] = ndget (tensor x) [i0, i1, i2, i3]"
    if "i0 < s0" "i1 < s1" "i2 < s2" "i3 < s3" for i0 i1 i2 i3
    using get[of "[b0 + i0, b1 + i1, b2 + i2, i3]"] that vx[OF that]
    by (simp add: in_box_def in_region_def coerce_def)
  have zero: "ndget (tensor out) [j0, j1, j2, j3] = Some (F32 0)"
    if "j0 < s0 + b0 + a0" "j1 < s1 + b1 + a1" "j2 < s2 + b2 + a2" "j3 < s3"
       "\<not> (b0 \<le> j0 \<and> j0 < b0 + s0 \<and> b1 \<le> j1 \<and> j1 < b1 + s1 \<and> b2 \<le> j2 \<and> j2 < b2 + s2)"
    for j0 j1 j2 j3
  proof -
    have "\<not> in_region ?los (map2 (-) ?his ?los) [j0, j1, j2, j3]"
      using that(5) by (auto simp: in_region_def in_box_def)
    then show ?thesis using get[of "[j0, j1, j2, j3]"] that by (simp add: in_box_def)
  qed
  show ?thesis using out copy zero by blast
qed

theorem callCPU_copy_region_witness:
  "valid_nd (tensor ramp_input) \<and>
   (\<exists>out. output_tensor (fst (callCPU (example_layer False ''channels_last'') ramp_input)) = Some out \<and>
      ndget (tensor out) [1, 1, 1, 0] = ndget (tensor ramp_input) [0, 1, 1, 0] \<and>
      ndget (tensor out) [1, 1, 1, 0] = Some (F32 4) \<and>
      ndget (tensor out) [1, 2, 1, 0] = Some (F32 0))"
proof -
  let ?l = "example_layer False ''channels_last''"
  have h1: "dataFormat ?l \<noteq> ''channels_first''" by code_simp
  have h2: "shape (tensor ramp_input) = [2, 2, 2, 1]" by code_simp
  have h3: "padding ?l = [[1, 0], [0, 1], [0, 0]]" by code_simp
  have h4: "valid_nd (tensor ramp_input)" by code_simp
  have v: "ndget (tensor ramp_input) [0, 1, 1, 0] = Some (F32 4)" by code_simp
  from callCPU_copy_region[OF h1 h2 h3 h4] obtain out where
    o: "output_tensor (fst (callCPU ?l ramp_input)) = Some out"
    and c: "\<And>i0 i1 i2 i3. i0 < 2 \<and> i1 < 2 \<and> i2 < 2 \<and> i3 < 1 \<Longrightarrow>
       ndget (tensor out) [1 + i0, 0 + i1, 0 + i2, i3] = ndget (tensor ramp_input) [i0, i1, i2, i3]"
    and z: "\<And>j0 j1 j2 j3. j0 < 2 + 1 + 0 \<and> j1 < 2 + 0 + 1 \<and> j2 < 2 + 0 + 0 \<and> j3 < 1 \<and>
         \<not> (1 \<le> j0 \<and> j0 < 1 + 2 \<and> 0 \<le> j1 \<and> j1 < 0 + 2 \<and> 0 \<le> j2 \<and> j2 < 0 + 2) \<Longrightarrow>
       ndget (tensor out) [j0, j1, j2, j3] = Some (F32 0)"
    by blast
  have "ndget (tensor out) [1, 1, 1, 0] = ndget (tensor ramp_input) [0, 1, 1, 0]"
    using c[of 0 1 1 0] by simp
  moreover have "ndget (tensor out) [1, 2, 1, 0] = Some (F32 0)"
    using z[of 1 2 1 0] by simp
  ultimately show ?thesis using o h4 v by simp
qed

text \<open>
  Claim C2. On the CPU path the shape of the output is the shape of the input with each
  spatial axis enlarged by its two padding amounts and the channel axis unchanged; the
  channel axis is the last axis in channels-last order and the first in channels-first
  order.
\<close>

theorem callCPU_output_shape:
  assumes "shape (tensor x) = [d0, d1, d2, d3]"
    and "padding l = [[b0, a0], [b1, a1], [b2, a2]]"
  shows "\<exists>out. output_tensor (fst (callCPU l x)) = Some out \<and>
           shape (tensor out) =
             (if dataFormat l = ''channels_first''
              then [d0, d1 + b0 + a0, d2 + b1 + a1, d3 + b2 + a2]
              else [d0 + b0 + a0, d1 + b1 + a1, d2 + b2 + a2, d3])"
  using assms
  by (simp add: callCPU_def Let_def transpose_nd_def new_Tensor_def mk_ndarray_def)

theorem callCPU_output_shape_witness:
  "(\<exists>out. output_tensor (fst (callCPU (example_layer False ''channels_first'') ramp_input)) = Some out \<and>
      shape (tensor out) = [2, 3, 3, 1]) \<and>
   (\<exists>out. output_tensor (fst (callCPU (example_layer False ''channels_last'') ramp_input)) = Some out \<and>
      shape (tensor out) = [3, 3, 2, 1])"
proof -
  have h2: "shape (tensor ramp_input) = [2, 2, 2, 1]" by code_simp
  have h3: "padding (example_layer False f) = [[1, 0], [0, 1], [0, 0]]" for f
    by (simp add: example_layer_def constructor_def)
  have f1: "dataFormat (example_layer False ''channels_first'') = ''channels_first''" by code_simp
  have f2: "dataFormat (example_layer False ''channels_last'') \<noteq> ''channels_first''" by code_simp
  show ?thesis
    using callCPU_output_shape[OF h2 h3, of "''channels_first''"]
      callCPU_output_shape[OF h2 h3, of "''channels_last''"] f1 f2
    by simp
qed

text \<open>
  Claim C10. The CPU path returns the caller's input tensor of rank 4 as it received it,
  in both configurations: in channels-first order the two transpositions of the view
  compose to the identity permutation.
\<close>

theorem callCPU_input_restored:
  assumes "length (shape (tensor x)) = 4" "length (stride (tensor x)) = 4"
  shows "snd (callCPU l x) = x"
  using transpose_round_trip[OF assms] by (simp add: callCPU_def Let_def)

theorem callCPU_input_restored_witness:
  "snd (callCPU (example_layer False ''channels_first'') ramp_input) = ramp_input \<and>
   shape (tensor (snd (callCPU (example_layer False ''channels_first'') ramp_input))) = [2, 2, 2, 1]"
proof -
  have h1: "length (shape (tensor ramp_input)) = 4" by code_simp
  have h2: "length (stride (tensor ramp_input)) = 4" by code_simp
  have h3: "shape (tensor ramp_input) = [2, 2, 2, 1]" by code_simp
  show ?thesis using callCPU_input_restored[OF h1 h2] h3 by simp
qed

lemma callCPU_output_rank:
  "\<exists>out. output_tensor (fst (callCPU l x)) = Some out \<and> length (shape (tensor out)) = 4 \<and>
     length (stride (tensor out)) = 4"
  by (simp add: callCPU_def Let_def new_Tensor_def mk_ndarray_def transpose_nd_def)

text \<open>
  Claim C5. For an input of rank 4, the CPU path configured as channels-first gives the
  transposition (back to channels-first order) of what the channels-last configuration
  gives on the input transposed to channels-last order. Hence the round trip, which
  transposes a channels-last input to channels-first order, pads it as channels-first and
  transposes the result back, gives the same view as padding the input directly in
  channels-last order.
\<close>

theorem callCPU_channels_first_round_trip:
  assumes "length (shape (tensor x)) = 4" "length (stride (tensor x)) = 4"
  shows "(\<exists>o1 o2.
            output_tensor (fst (callCPU (l\<lparr>dataFormat := ''channels_first''\<rparr>) x)) = Some o1 \<and>
            output_tensor (fst (callCPU (l\<lparr>dataFormat := ''channels_last''\<rparr>)
                                  (x\<lparr>tensor := transpose_nd (tensor x) [1, 2, 3, 0]\<rparr>))) = Some o2 \<and>
            tensor o1 = transpose_nd (tensor o2) [3, 0, 1, 2]) \<and>
         (\<exists>o3 o4.
            output_tensor (fst (callCPU (l\<lparr>dataFormat := ''channels_first''\<rparr>)
                                  (x\<lparr>tensor := transpose_nd (tensor x) [3, 0, 1, 2]\<rparr>))) = Some o3 \<and>
            output_tensor (fst (callCPU (l\<lparr>dataFormat := ''channels_last''\<rparr>) x)) = Some o4 \<and>
            transpose_nd (tensor o3) [1, 2, 3, 0] = tensor o4)"
proof -
  have a: "\<exists>o1 o2.
            output_tensor (fst (callCPU (l\<lparr>dataFormat := ''channels_first''\<rparr>) x)) = Some o1 \<and>
            output_tensor (fst (callCPU (l\<lparr>dataFormat := ''channels_last''\<rparr>)
                                  (x\<lparr>tensor := transpose_nd (tensor x) [1, 2, 3, 0]\<rparr>))) = Some o2 \<and>
            tensor o1 = transpose_nd (tensor o2) [3, 0, 1, 2]"
    by (simp add: callCPU_def Let_def)
  obtain o4 where o4: "output_tensor (fst (callCPU (l\<lparr>dataFormat := ''channels_last''\<rparr>) x)) = Some o4"
    and r4: "length (shape (tensor o4)) = 4" "length (stride (tensor o4)) = 4"
    using callCPU_output_rank by blast
  have tb: "transpose_nd (transpose_nd (tensor x) [3, 0, 1, 2]) [1, 2, 3, 0] = tensor x"
    using assms by (rule transpose_round_trip2)
  have "\<exists>o3. output_tensor (fst (callCPU (l\<lparr>dataFormat := ''channels_first''\<rparr>)
                                  (x\<lparr>tensor := transpose_nd (tensor x) [3, 0, 1, 2]\<rparr>))) = Some o3 \<and>
          tensor o3 = transpose_nd (tensor o4) [3, 0, 1, 2]"
    using o4 tb by (simp add: callCPU_def Let_def)
  then show ?thesis using a o4 transpose_round_trip2[OF r4] by auto
qed

theorem callCPU_channels_first_round_trip_witness:
  "(\<exists>o3 o4.
      output_tensor (fst (callCPU (example_layer False ''channels_first'')
                            (ramp_input\<lparr>tensor := transpose_nd (tensor ramp_input) [3, 0, 1, 2]\<rparr>))) = Some o3 \<and>
      output_tensor (fst (callCPU (example_layer False ''channels_last'') ramp_input)) = Some o4 \<and>
      transpose_nd (tensor o3) [1, 2, 3, 0] = tensor o4 \<and> shape (tensor o3) = [1, 3, 3, 2] \<and>
      shape (tensor o4) = [3, 3, 2, 1])"
proof -
  have h1: "length (shape (tensor ramp_input)) = 4" by code_simp
  have h2: "length (stride (tensor ramp_input)) = 4" by code_simp
  have e1: "(example_layer False ''channels_last'')\<lparr>dataFormat := ''channels_first''\<rparr> = example_layer False ''channels_first''"
    by (simp add: example_layer_def constructor_def)
  have e2: "(example_layer False ''channels_last'')\<lparr>dataFormat := ''channels_last''\<rparr> = example_layer False ''channels_last''"
    by (simp add: example_layer_def constructor_def)
  have s3: "map_option (shape \<circ> tensor) (output_tensor (fst (callCPU (example_layer False ''channels_first'')
                            (ramp_input\<lparr>tensor := transpose_nd (tensor ramp_input) [3, 0, 1, 2]\<rparr>)))) = Some [1, 3, 3, 2]"
    by code_simp
  have s4: "map_option (shape \<circ> tensor) (output_tensor (fst (callCPU (example_layer False ''channels_last'') ramp_input))) = Some [3, 3, 2, 1]"
    by code_simp
  show ?thesis
    using callCPU_channels_first_round_trip[OF h1 h2, of "example_layer False ''channels_last''"] s3 s4
    unfolding e1 e2 by auto
qed

text \<open>
  Claim C9. The constructor expands the scalar padding 2 to \<open>[[2,2],[2,2],[2,2]]\<close>, and
  for every input an invocation of the instance so configured gives what an invocation of
  the instance configured with the explicit pairs gives, whatever the other attributes
  are.
\<close>

theorem constructor_scalar_padding:
  "padding (constructor (a\<lparr>padding_attr := Some (PadInt 2)\<rparr>) :: ('a::zero) ZeroPadding3D)
     = [[2, 2], [2, 2], [2, 2]] \<and>
   call (constructor (a\<lparr>padding_attr := Some (PadInt 2)\<rparr>)) (x :: 'a f32 Tensor)
     = call (constructor (a\<lparr>padding_attr := Some (PadPairs [[2, 2], [2, 2], [2, 2]])\<rparr>)) x"
  by (simp add: constructor_def)

text \<open>
  Claim C6, as stated, gives the output shape \<open>[3,2,2,1]\<close> for the input of shape
  \<open>[2,2,2,1]\<close> filled with 1s and the padding \<open>[[1,0],[0,1],[0,0]]\<close> in channels-last
  order. The CPU path does not produce that shape.
\<close>

theorem scenario_shape_counterexample:
  "map_option (shape \<circ> tensor)
     (output_tensor (fst (callCPU (example_layer False ''channels_last'') ones_input)))
   \<noteq> Some [3, 2, 2, 1]"
  by code_simp

text \<open>
  Claim C6, amended. In that scenario the output shape is \<open>[3,3,2,1]\<close>; the slice at
  index 0 of axis 0 is all zeros; in the slice at indices 1 to 2 of axis 0, the positions
  0 to 1 of axis 1 hold the original input and the position 2 of axis 1, the trailing row,
  is all zeros.
\<close>

theorem scenario_padded_output:
  "(case output_tensor (fst (callCPU (example_layer False ''channels_last'') ones_input)) of
      None \<Rightarrow> False
    | Some out \<Rightarrow>
        shape (tensor out) = [3, 3, 2, 1] \<and>
        flatten NaN (lo (hi (tensor out) [1, 3, 2, 1]) [0, 0, 0, 0]) = replicate 6 (F32 0) \<and>
        flatten NaN (lo (hi (tensor out) [3, 2, 2, 1]) [1, 0, 0, 0]) = flatten NaN (tensor ones_input) \<and>
        flatten NaN (lo (hi (tensor out) [3, 3, 2, 1]) [1, 2, 0, 0]) = replicate 4 (F32 0))"
  by code_simp

section \<open>The CPU path in both axis orders\<close>

lemma ndget_transpose_to_last:
  "stride a = [t0, t1, t2, t3] \<Longrightarrow>
   ndget (transpose_nd a [1, 2, 3, 0]) [i0, i1, i2, c] = ndget a [c, i0, i1, i2]"
  by (simp add: ndget_def index_def transpose_nd_def add_ac)

lemma ndget_transpose_to_first:
  "stride a = [t0, t1, t2, t3] \<Longrightarrow>
   ndget (transpose_nd a [3, 0, 1, 2]) [c, j0, j1, j2] = ndget a [j0, j1, j2, c]"
  by (simp add: ndget_def index_def transpose_nd_def add_ac)

lemma in_box4:
  "in_box j [n0, n1, n2, n3] \<Longrightarrow> \<exists>j0 j1 j2 j3. j = [j0, j1, j2, j3] \<and> j0 < n0 \<and> j1 < n1 \<and> j2 < n2 \<and> j3 < n3"
  by (auto simp: in_box_def list_all2_Cons2)

lemma callCPU_cf_output:
  assumes "dataFormat l = ''channels_first''"
    and "shape (tensor x) = [d0, d1, d2, d3]"
    and "padding l = [[b0, a0], [b1, a1], [b2, a2]]"
  shows "\<exists>out. output_tensor (fst (callCPU l x)) = Some out \<and>
     tensor out = transpose_nd (mk_ndarray
       (assign NaN (lo (hi (mk_ndarray (replicate (prod_list [d1 + b0 + a0, d2 + b1 + a1, d3 + b2 + a2, d0]) (F32 0))
                              [d1 + b0 + a0, d2 + b1 + a1, d3 + b2 + a2, d0])
                          [d1 + b0, d2 + b1, d3 + b2, d0]) [b0, b1, b2, 0])
                   (transpose_nd (tensor x) [1, 2, 3, 0]))
       [d1 + b0 + a0, d2 + b1 + a1, d3 + b2 + a2, d0]) [3, 0, 1, 2]"
  using assms
  by (simp add: callCPU_def Let_def new_Tensor_def Float32Array_def mk_ndarray_data_update
      transpose_nd_def)

lemma callCPU_get:
  assumes sh: "shape (tensor x) = [d0, d1, d2, d3]"
    and st: "length (stride (tensor x)) = 4"
    and p: "padding l = [[b0, a0], [b1, a1], [b2, a2]]"
  shows "\<exists>out. output_tensor (fst (callCPU l x)) = Some out \<and>
     shape (tensor out) = padded_shape l (shape (tensor x)) \<and>
     (\<forall>j. in_box j (padded_shape l (shape (tensor x))) \<longrightarrow>
        ndget (tensor out) j = Some (padded (tensor x) (pad_origin l) j))"
proof (cases "dataFormat l = ''channels_first''")
  case False
  let ?osh = "[d0 + b0 + a0, d1 + b1 + a1, d2 + b2 + a2, d3]"
  let ?his = "[d0 + b0, d1 + b1, d2 + b2, d3]"
  let ?los = "[b0, b1, b2, 0]"
  obtain out where out: "output_tensor (fst (callCPU l x)) = Some out"
    and t: "tensor out = mk_ndarray (assign NaN (lo (hi (mk_ndarray (replicate (prod_list ?osh) (F32 0)) ?osh) ?his) ?los) (tensor x)) ?osh"
    using callCPU_cl_output[OF False sh p] by blast
  have psh: "padded_shape l (shape (tensor x)) = ?osh"
    using False sh p by (simp add: padded_shape_def)
  have po: "pad_origin l = ?los" using False p by (simp add: pad_origin_def)
  have "ndget (tensor out) j = Some (padded (tensor x) ?los j)" if "in_box j ?osh" for j
  proof -
    have "ndget (tensor out) j = Some (if in_region ?los (map2 (-) ?his ?los) j
               then coerce NaN (ndget (tensor x) (map2 (-) j ?los)) else F32 0)"
      unfolding t by (rule pad_get) (use that in simp_all)
    then show ?thesis using sh by (simp add: padded_def)
  qed
  moreover have "shape (tensor out) = ?osh" using t by (simp add: mk_ndarray_sel)
  ultimately show ?thesis using out psh po by simp
next
  case True
  let ?osh = "[d1 + b0 + a0, d2 + b1 + a1, d3 + b2 + a2, d0]"
  let ?his = "[d1 + b0, d2 + b1, d3 + b2, d0]"
  let ?los = "[b0, b1, b2, 0]"
  let ?xt = "transpose_nd (tensor x) [1, 2, 3, 0]"
  let ?A = "mk_ndarray (assign NaN (lo (hi (mk_ndarray (replicate (prod_list ?osh) (F32 0)) ?osh) ?his) ?los) ?xt) ?osh"
  obtain t0 t1 t2 t3 where str: "stride (tensor x) = [t0, t1, t2, t3]"
    using st by (auto simp: length_Suc_conv eval_nat_numeral)
  obtain out where out: "output_tensor (fst (callCPU l x)) = Some out"
    and t: "tensor out = transpose_nd ?A [3, 0, 1, 2]"
    using callCPU_cf_output[OF True sh p] by blast
  have psh: "padded_shape l (shape (tensor x)) = [d0, d1 + b0 + a0, d2 + b1 + a1, d3 + b2 + a2]"
    using True sh p by (simp add: padded_shape_def)
  have po: "pad_origin l = [0, b0, b1, b2]" using True p by (simp add: pad_origin_def)
  have strA: "stride ?A = [(d2 + b1 + a1) * ((d3 + b2 + a2) * d0), (d3 + b2 + a2) * d0, d0, 1]"
    by (simp add: mk_ndarray_sel)
  have "ndget (tensor out) j = Some (padded (tensor x) [0, b0, b1, b2] j)"
    if jb: "in_box j [d0, d1 + b0 + a0, d2 + b1 + a1, d3 + b2 + a2]" for j
  proof -
    obtain c j0 j1 j2 where j: "j = [c, j0, j1, j2]" "c < d0" "j0 < d1 + b0 + a0"
      "j1 < d2 + b1 + a1" "j2 < d3 + b2 + a2"
      using in_box4[OF jb] by blast
    have "ndget ?A [j0, j1, j2, c] = Some (if in_region ?los (map2 (-) ?his ?los) [j0, j1, j2, c]
               then coerce NaN (ndget ?xt (map2 (-) [j0, j1, j2, c] ?los)) else F32 0)"
      by (rule pad_get) (use j in \<open>simp_all add: in_box_def\<close>)
    moreover have "ndget (tensor out) j = ndget ?A [j0, j1, j2, c]"
      unfolding t j(1) by (rule ndget_transpose_to_first[OF strA])
    moreover have "ndget ?xt [j0 - b0, j1 - b1, j2 - b2, c] = ndget (tensor x) [c, j0 - b0, j1 - b1, j2 - b2]"
      by (rule ndget_transpose_to_last[OF str])
    ultimately show ?thesis using sh j
      by (simp add: padded_def in_region_def in_box_def conj_ac)
  qed
  moreover have "shape (tensor out) = [d0, d1 + b0 + a0, d2 + b1 + a1, d3 + b2 + a2]"
    using t by (simp add: mk_ndarray_sel transpose_nd_def)
  ultimately show ?thesis using out psh po by simp
qed

section \<open>Texture encoding\<close>

lemma length_flatten: "length (flatten u a) = prod_list (shape a)"
  by (simp add: flatten_def length_indices)

lemma nth_flatten:
  "in_box idx (shape a) \<Longrightarrow> flatten u a ! rm_index (shape a) idx = coerce u (ndget a idx)"
  using rm_index_less[of idx "shape a"] nth_indices[of idx "shape a"]
  by (simp add: flatten_def length_indices)

lemma squareDim_holds: "n \<le> squareDim n * squareDim n"
proof -
  let ?xs = "filter (\<lambda>s. n \<le> s * s) [0..<Suc n]"
  have "n \<in> set ?xs" by simp 
  then have ne: "?xs \<noteq> []" by (metis empty_iff list.set(1))
  then have "hd ?xs \<in> set ?xs" by (rule hd_in_set)
  then have "hd ?xs \<in> {x \<in> set [0..<Suc n]. n \<le> x * x}" by (simp only: set_filter)
  then show ?thesis unfolding squareDim_def by blast
qed

lemma new_Tensor_tensor:
  "length d = prod_list sh \<Longrightarrow> tensor (new_Tensor i d sh ty) = mk_ndarray d sh"
  by (cases "d = []") (auto simp: new_Tensor_def)

lemma new_Tensor_empty_tensor:
  "tensor (new_Tensor i [] sh ty) = mk_ndarray (replicate (prod_list sh) (zero_elem ty)) sh"
  by (simp add: new_Tensor_def)

lemma fillIndexMap_tensor:
  assumes "length (data tbl) = prod_list (shape tbl)"
  shows "tensor (fillIndexMap l tbl) =
     mk_ndarray (assign 0 (lo (hi (mk_ndarray (assigns (mk_ndarray (replicate (prod_list (outputShape l)) 0) (outputShape l)) (- 1))
                                    (outputShape l)) (sliceEnd l)) (sliceStart l))
                   (mk_ndarray (data tbl) (shape tbl)))
       (outputShape l)"
  using assms
  by (simp add: fillIndexMap_def Let_def new_Tensor_tensor new_Tensor_empty_tensor Int32Array_def
      mk_ndarray_data_update)

lemma fillIndexMap_get:
  assumes tbl: "length (data tbl) = prod_list (shape tbl)"
    and len: "length (sliceEnd l) = length (outputShape l)" "length (sliceStart l) = length (outputShape l)"
    and le: "list_all2 (\<le>) (sliceEnd l) (outputShape l)"
    and j: "in_box j (outputShape l)"
  shows "ndget (tensor (fillIndexMap l tbl)) j =
     Some (if in_region (sliceStart l) (map2 (-) (sliceEnd l) (sliceStart l)) j
           then coerce 0 (ndget (mk_ndarray (data tbl) (shape tbl)) (map2 (-) j (sliceStart l)))
           else - 1)"
proof -
  let ?osh = "outputShape l"
  let ?z = "replicate (prod_list ?osh) (0::int)"
  let ?D = "assigns (mk_ndarray ?z ?osh) (- 1)"
  have lD: "length ?D = prod_list ?osh" by (simp add: length_assigns mk_ndarray_sel)
  have "ta_get ?D (rm_index ?osh j) = Some (- 1)"
    by (rule assigns_get) (use j in simp_all)
  then have Dj: "?D ! rm_index ?osh j = - 1"
    by (simp add: ta_get_def split: if_splits)
  show ?thesis
    unfolding fillIndexMap_tensor[OF tbl] ndget_mk_ndarray
    using assign_view_get[OF lD len(1) le len(2) j, of 0 "mk_ndarray (data tbl) (shape tbl)"] Dj
    by (simp add: ndget_mk_ndarray)
qed

lemma texels_createGLTexture: "texels (createGLTexture t) = data (tensor t)"
  by (simp add: texels_def createGLTexture_def)

lemma data_reshapeTo2D:
  "data (tensor (reshapeTo2D t)) = flatten (undef_elem (arrayType t)) (tensor t)"
  by (simp add: reshapeTo2D_def Let_def mk_ndarray_sel)

lemma data_reshapeTo2DSquare:
  "data (tensor (reshapeTo2DSquare t)) =
     take (squareDim (prod_list (shape (tensor t))) * squareDim (prod_list (shape (tensor t))))
       (data (tensor t)
        @ replicate (squareDim (prod_list (shape (tensor t))) * squareDim (prod_list (shape (tensor t)))
                     - length (data (tensor t))) (zero_elem (arrayType t)))"
  by (simp add: reshapeTo2DSquare_def Let_def mk_ndarray_sel)

lemma length_data_reshapeTo2DSquare:
  "length (data (tensor (reshapeTo2DSquare t))) =
     squareDim (prod_list (shape (tensor t))) * squareDim (prod_list (shape (tensor t)))"
  by (simp add: data_reshapeTo2DSquare)

lemma contiguous_mk_ndarray: "length d = prod_list sh \<Longrightarrow> contiguous (mk_ndarray d sh)"
  by (simp add: contiguous_def mk_ndarray_sel)

lemma contiguous_ndget:
  "contiguous a \<Longrightarrow> in_box j (shape a) \<Longrightarrow> ndget a j = Some (data a ! rm_index (shape a) j)"
  using rm_index_less[of j "shape a"]
  by (simp add: contiguous_def ndget_def index_def rm_index_def ta_get_def)

lemma square_texel:
  assumes c: "contiguous (tensor t)" and j: "in_box j (shape (tensor t))"
  shows "ta_get (data (tensor (reshapeTo2DSquare t))) (rm_index (shape (tensor t)) j)
         = Some (data (tensor t) ! rm_index (shape (tensor t)) j)"
proof -
  let ?n = "prod_list (shape (tensor t))"
  let ?s = "squareDim ?n"
  have k: "rm_index (shape (tensor t)) j < ?n" by (rule rm_index_less[OF j])
  have n: "?n \<le> ?s * ?s" by (rule squareDim_holds)
  have len: "length (data (tensor t)) = ?n" using c by (simp add: contiguous_def)
  show ?thesis
    using k n len
    by (simp add: ta_get_def length_data_reshapeTo2DSquare data_reshapeTo2DSquare nth_append)
qed

lemma encoded_texel:
  assumes c: "contiguous (tensor t)" and j: "in_box j (shape (tensor t))"
  shows "ta_get (texels (createGLTexture (if r then reshapeTo2D t else reshapeTo2DSquare t)))
           (rm_index (shape (tensor t)) j)
         = Some (coerce (undef_elem (arrayType t)) (ndget (tensor t) j))"
proof (cases r)
  case True
  then show ?thesis
    using rm_index_less[OF j] nth_flatten[OF j, of "undef_elem (arrayType t)"]
    by (simp add: texels_createGLTexture data_reshapeTo2D ta_get_def length_flatten)
next
  case False
  then show ?thesis
    using square_texel[OF c j] contiguous_ndget[OF c j]
    by (simp add: texels_createGLTexture coerce_def)
qed

lemma originalShape_encoded:
  "originalShape (createGLTexture (if r then reshapeTo2D t else reshapeTo2DSquare t))
     = Some (shape (tensor t))"
  by (simp add: createGLTexture_def reshapeTo2D_def reshapeTo2DSquare_def Let_def)

lemma slice_eval:
  assumes "padding l = [[b0, a0], [b1, a1], [b2, a2]]" "inputShape l = [d0, d1, d2, d3]"
  shows "sliceStart l = (if dataFormat l = ''channels_first'' then [0, b0, b1, b2] else [b0, b1, b2, 0])"
    and "sliceEnd l = (if dataFormat l = ''channels_first''
                       then [d0, d1 + b0, d2 + b1, d3 + b2] else [d0 + b0, d1 + b1, d2 + b2, d3])"
  using assms by (simp_all add: sliceStart_def sliceEnd_def Let_def)

lemma prod_list_butlast_last: "xs \<noteq> [] \<Longrightarrow> prod_list (butlast xs) * last xs = prod_list (xs::nat list)"
  by (induction xs) (auto simp: mult.assoc mult.left_commute)

lemma glTextureShape_encoded:
  "glTextureShape (createGLTexture (if r then reshapeTo2D t else reshapeTo2DSquare t)) =
     (if r then [prod_list (butlast (shape (tensor t))), last (shape (tensor t))]
      else [squareDim (prod_list (shape (tensor t))), squareDim (prod_list (shape (tensor t)))])"
  by (simp add: createGLTexture_def reshapeTo2D_def reshapeTo2DSquare_def Let_def mk_ndarray_sel)

lemma texture_holds_shape:
  "shape (tensor t) \<noteq> [] \<Longrightarrow>
   prod_list (shape (tensor t))
     \<le> prod_list (glTextureShape (createGLTexture (if r then reshapeTo2D t else reshapeTo2DSquare t)))"
  using squareDim_holds[of "prod_list (shape (tensor t))"]
  by (simp add: glTextureShape_encoded prod_list_butlast_last)

lemma length_texels_encoded:
  "prod_list (shape (tensor t))
     \<le> length (texels (createGLTexture (if r then reshapeTo2D t else reshapeTo2DSquare t)))"
  using squareDim_holds[of "prod_list (shape (tensor t))"]
  by (simp add: texels_createGLTexture data_reshapeTo2D length_data_reshapeTo2DSquare length_flatten)

lemma gpu_ready_encoded:
  assumes "arrayType x = Float32Array" "shape (tensor x) \<noteq> []"
  shows "gpu_ready (createGLTexture (if r then reshapeTo2D x else reshapeTo2DSquare x)) (shape (tensor x))"
proof -
  let ?e = "createGLTexture (if r then reshapeTo2D x else reshapeTo2DSquare x)"
  have "glTexture ?e \<noteq> None" by (simp add: createGLTexture_def)
  moreover have "indicesForReshaped ?e = Some (createIndicesFor2DReshaped (shape (tensor x)))"
    by (simp add: createGLTexture_def reshapeTo2D_def reshapeTo2DSquare_def Let_def)
  moreover have "arrayType ?e = Float32Array"
    using assms(1) by (simp add: createGLTexture_def reshapeTo2D_def reshapeTo2DSquare_def Let_def)
  moreover have "length (glTextureShape ?e) = 2" by (simp add: glTextureShape_encoded)
  moreover have "prod_list (shape (tensor x)) \<le> glTextureShape ?e ! 0 * glTextureShape ?e ! 1"
    using texture_holds_shape[OF assms(2), of r]
    by (cases r) (simp_all add: glTextureShape_encoded[where r = True, simplified]
        glTextureShape_encoded[where r = False, simplified])
  ultimately show ?thesis
    using originalShape_encoded[of r x] length_texels_encoded[of x r]
    unfolding gpu_ready_def by blast
qed

lemma host_view_encoded:
  assumes c: "contiguous (tensor x)" and i: "in_box idx (shape (tensor x))"
  shows "ndget (host_view (createGLTexture (if r then reshapeTo2D x else reshapeTo2DSquare x))) idx
         = Some (coerce (undef_elem (arrayType x)) (ndget (tensor x) idx))"
proof -
  let ?e = "createGLTexture (if r then reshapeTo2D x else reshapeTo2DSquare x)"
  let ?sh = "shape (tensor x)"
  have hv: "host_view ?e = mk_ndarray (take (prod_list ?sh) (texels ?e)) ?sh"
    using originalShape_encoded[of r x] by (simp add: host_view_def)
  have "ta_get (texels ?e) (rm_index ?sh idx) = Some (coerce (undef_elem (arrayType x)) (ndget (tensor x) idx))"
    by (rule encoded_texel[OF c i])
  then show ?thesis using rm_index_less[OF i]
    by (simp add: hv ndget_mk_ndarray ta_get_def split: if_splits)
qed

lemma shape_host_view_encoded:
  "shape (host_view (createGLTexture (if r then reshapeTo2D x else reshapeTo2DSquare x))) = shape (tensor x)"
  using originalShape_encoded[of r x] by (simp add: host_view_def mk_ndarray_sel)

lemma padded_host_view_encoded:
  assumes "arrayType x = Float32Array" and c: "contiguous (tensor x)"
  shows "padded (host_view (createGLTexture (if r then reshapeTo2D x else reshapeTo2DSquare x))) los j
         = padded (tensor x) los j"
proof (cases "in_region los (shape (tensor x)) j")
  case True
  then have "in_box (map2 (-) j los) (shape (tensor x))" by (simp add: in_region_def)
  from host_view_encoded[OF c this, of r] contiguous_ndget[OF c this] show ?thesis
    using True assms(1) by (simp add: padded_def shape_host_view_encoded coerce_def)
next
  case False
  then show ?thesis by (simp add: padded_def shape_host_view_encoded)
qed

section \<open>The index map\<close>

lemma padded_shape_eval:
  assumes "padding l = [[b0, a0], [b1, a1], [b2, a2]]"
  shows "padded_shape l [d0, d1, d2, d3] =
        (if dataFormat l = ''channels_first''
         then [d0, d1 + b0 + a0, d2 + b1 + a1, d3 + b2 + a2]
         else [d0 + b0 + a0, d1 + b1 + a1, d2 + b2 + a2, d3])"
  using assms by (simp add: padded_shape_def)

lemma pad_origin_eval:
  assumes "padding l = [[b0, a0], [b1, a1], [b2, a2]]"
  shows "pad_origin l = (if dataFormat l = ''channels_first'' then [0, b0, b1, b2] else [b0, b1, b2, 0])"
  using assms by (simp add: pad_origin_def)

lemma fillIndexMap_content:
  assumes p: "padding l = [[b0, a0], [b1, a1], [b2, a2]]"
    and ish: "inputShape l = [d0, d1, d2, d3]"
    and osh: "outputShape l = padded_shape l (inputShape l)"
    and tbl: "shape tbl = inputShape l" "length (data tbl) = prod_list (shape tbl)"
    and j: "in_box j (outputShape l)"
  shows "ndget (tensor (fillIndexMap l tbl)) j =
          Some (if in_region (sliceStart l) (inputShape l) j
                then data tbl ! rm_index (inputShape l) (map2 (-) j (sliceStart l))
                else - 1)"
    and "ta_get (texels (createGLTexture (if r then reshapeTo2D (fillIndexMap l tbl)
                                          else reshapeTo2DSquare (fillIndexMap l tbl))))
           (rm_index (outputShape l) j) = ndget (tensor (fillIndexMap l tbl)) j"
proof -
  let ?fm = "fillIndexMap l tbl"
  note sl = slice_eval[OF p ish]
  have osh': "outputShape l =
        (if dataFormat l = ''channels_first''
         then [d0, d1 + b0 + a0, d2 + b1 + a1, d3 + b2 + a2]
         else [d0 + b0 + a0, d1 + b1 + a1, d2 + b2 + a2, d3])"
    using osh ish padded_shape_eval[OF p] by simp
  have shp: "shape (tensor ?fm) = outputShape l"
    by (simp add: fillIndexMap_tensor[OF tbl(2)] mk_ndarray_sel)
  have ty: "arrayType ?fm = Int32Array"
    by (simp add: fillIndexMap_def Let_def new_Tensor_def)
  have diff: "map2 (-) (sliceEnd l) (sliceStart l) = inputShape l"
    using sl ish by simp
  have g: "ndget (tensor ?fm) j =
       Some (if in_region (sliceStart l) (map2 (-) (sliceEnd l) (sliceStart l)) j
             then coerce 0 (ndget (mk_ndarray (data tbl) (shape tbl)) (map2 (-) j (sliceStart l)))
             else - 1)"
    by (rule fillIndexMap_get[OF tbl(2) _ _ _ j]) (use sl osh' in \<open>simp_all\<close>)
  show get: "ndget (tensor ?fm) j =
          Some (if in_region (sliceStart l) (inputShape l) j
                then data tbl ! rm_index (inputShape l) (map2 (-) j (sliceStart l))
                else - 1)"
  proof (cases "in_region (sliceStart l) (inputShape l) j")
    case True
    then have "in_box (map2 (-) j (sliceStart l)) (shape tbl)"
      using tbl(1) by (simp add: in_region_def)
    then have "rm_index (shape tbl) (map2 (-) j (sliceStart l)) < length (data tbl)"
      using rm_index_less tbl(2) by simp
    then show ?thesis using g True diff tbl(1)
      by (simp add: ndget_mk_ndarray ta_get_def coerce_def)
  next
    case False
    then show ?thesis using g diff by simp
  qed
  have "ta_get (texels (createGLTexture (if r then reshapeTo2D ?fm else reshapeTo2DSquare ?fm)))
          (rm_index (shape (tensor ?fm)) j)
        = Some (coerce (undef_elem (arrayType ?fm)) (ndget (tensor ?fm) j))"
    by (rule encoded_texel)
      (use j shp in \<open>simp_all add: fillIndexMap_tensor[OF tbl(2)] contiguous_mk_ndarray length_assign
          length_assigns data_view mk_ndarray_sel\<close>)
  then show "ta_get (texels (createGLTexture (if r then reshapeTo2D ?fm else reshapeTo2DSquare ?fm)))
          (rm_index (outputShape l) j) = ndget (tensor ?fm) j"
    using get shp by (simp add: coerce_def)
qed

lemma createIndices_nth:
  "in_box idx sh \<Longrightarrow> data (createIndicesFor2DReshaped sh) ! rm_index sh idx = int (rm_index sh idx)"
  using rm_index_less[of idx sh] by (simp add: createIndicesFor2DReshaped_def mk_ndarray_sel)

lemma createIndices_sel:
  "shape (createIndicesFor2DReshaped sh) = sh"
  "length (data (createIndicesFor2DReshaped sh)) = prod_list sh"
  by (simp_all add: createIndicesFor2DReshaped_def mk_ndarray_sel)

lemma index_map_for_fresh:
  assumes p: "padding l = [[b0, a0], [b1, a1], [b2, a2]]"
  shows "index_map_for l [d0, d1, d2, d3]
     (createGLTexture
        (if r
         then reshapeTo2D (fillIndexMap (l\<lparr>inputShape := [d0, d1, d2, d3],
                 outputShape := padded_shape l [d0, d1, d2, d3]\<rparr>)
                 (createIndicesFor2DReshaped [d0, d1, d2, d3]))
         else reshapeTo2DSquare (fillIndexMap (l\<lparr>inputShape := [d0, d1, d2, d3],
                 outputShape := padded_shape l [d0, d1, d2, d3]\<rparr>)
                 (createIndicesFor2DReshaped [d0, d1, d2, d3]))))"
proof -
  let ?sh = "[d0, d1, d2, d3]"
  let ?l1 = "l\<lparr>inputShape := ?sh, outputShape := padded_shape l ?sh\<rparr>"
  let ?tbl = "createIndicesFor2DReshaped ?sh"
  let ?M = "createGLTexture (if r then reshapeTo2D (fillIndexMap ?l1 ?tbl)
                             else reshapeTo2DSquare (fillIndexMap ?l1 ?tbl))"
  have p1: "padding ?l1 = [[b0, a0], [b1, a1], [b2, a2]]" using p by simp
  have i1: "inputShape ?l1 = ?sh" by simp
  have ps: "padded_shape ?l1 ?sh = padded_shape l ?sh" by (simp add: padded_shape_def)
  have o1: "outputShape ?l1 = padded_shape ?l1 (inputShape ?l1)" using ps by simp
  have st: "sliceStart ?l1 = pad_origin l"
    using slice_eval(1)[OF p1 i1] pad_origin_eval[OF p] by simp
  have "ta_get (texels ?M) (rm_index (padded_shape l ?sh) j) =
              Some (if in_region (pad_origin l) ?sh j
                    then int (rm_index ?sh (map2 (-) j (pad_origin l)))
                    else - 1)" if j: "in_box j (padded_shape l ?sh)" for j
  proof -
    have j1: "in_box j (outputShape ?l1)" using j by simp
    have t1: "shape ?tbl = inputShape ?l1" by (simp add: createIndices_sel)
    have t2: "length (data ?tbl) = prod_list (shape ?tbl)" by (simp add: createIndices_sel)
    note c = fillIndexMap_content(1)[OF p1 i1 o1 t1 t2 j1]
      fillIndexMap_content(2)[OF p1 i1 o1 t1 t2 j1, where r = r]
    have "ta_get (texels ?M) (rm_index (outputShape ?l1) j) =
          Some (if in_region (sliceStart ?l1) (inputShape ?l1) j
                then data ?tbl ! rm_index (inputShape ?l1) (map2 (-) j (sliceStart ?l1))
                else - 1)"
      using c by simp
    moreover have "data ?tbl ! rm_index ?sh (map2 (-) j (pad_origin l))
                   = int (rm_index ?sh (map2 (-) j (pad_origin l)))"
      if "in_region (pad_origin l) ?sh j"
      by (rule createIndices_nth) (use that in \<open>simp add: in_region_def\<close>)
    ultimately show ?thesis using st by simp
  qed
  then show ?thesis
    unfolding index_map_for_def list_all_iff set_indices by simp
qed

text \<open>
  Claim C4. On the GPU path, with the fields \<^verbatim>\<open>inputShape\<close> and \<^verbatim>\<open>outputShape\<close>
  set as \<^verbatim>\<open>_callGPU\<close> sets them and no index map built yet,
  \<^verbatim>\<open>_createIndexMap\<close> stores an index map that is the texture encoding of a tensor
  of the output shape. In that tensor every element outside the copy region is the
  sentinel \<open>-1\<close>, and the copy region, whose start and end coordinates place the channel
  axis first under channels-first and last under channels-last, holds the entries of the
  supplied table of linear offsets, element by element. The texture holds the element for
  \<open>j\<close> at the row-major position of \<open>j\<close> in the output shape.
\<close>

theorem createIndexMap_content:
  assumes none: "indexMap l = None"
    and p: "padding l = [[b0, a0], [b1, a1], [b2, a2]]"
    and ish: "inputShape l = [d0, d1, d2, d3]"
    and osh: "outputShape l =
        (if dataFormat l = ''channels_first''
         then [d0, d1 + b0 + a0, d2 + b1 + a1, d3 + b2 + a2]
         else [d0 + b0 + a0, d1 + b1 + a1, d2 + b2 + a2, d3])"
    and tbl: "shape tbl = inputShape l" "length (data tbl) = prod_list (shape tbl)"
  shows "\<exists>l' m. createIndexMap l (Some tbl) r = Some l' \<and> indexMap l' = Some m \<and>
     m = createGLTexture (if r then reshapeTo2D (fillIndexMap l tbl)
                          else reshapeTo2DSquare (fillIndexMap l tbl)) \<and>
     originalShape m = Some (outputShape l) \<and>
     shape (tensor (fillIndexMap l tbl)) = outputShape l \<and>
     sliceStart l = (if dataFormat l = ''channels_first'' then [0, b0, b1, b2] else [b0, b1, b2, 0]) \<and>
     sliceEnd l = (if dataFormat l = ''channels_first''
                   then [d0, d1 + b0, d2 + b1, d3 + b2] else [d0 + b0, d1 + b1, d2 + b2, d3]) \<and>
     (\<forall>j. in_box j (outputShape l) \<longrightarrow>
        ndget (tensor (fillIndexMap l tbl)) j =
          Some (if in_region (sliceStart l) (inputShape l) j
                then data tbl ! rm_index (inputShape l) (map2 (-) j (sliceStart l))
                else - 1) \<and>
        ta_get (texels m) (rm_index (outputShape l) j) = ndget (tensor (fillIndexMap l tbl)) j)"
proof -
  let ?fm = "fillIndexMap l tbl"
  let ?m = "createGLTexture (if r then reshapeTo2D ?fm else reshapeTo2DSquare ?fm)"
  note sl = slice_eval[OF p ish]
  have osh': "outputShape l = padded_shape l (inputShape l)"
    using osh ish padded_shape_eval[OF p] by simp
  have shp: "shape (tensor ?fm) = outputShape l"
    by (simp add: fillIndexMap_tensor[OF tbl(2)] mk_ndarray_sel)
  have "createIndexMap l (Some tbl) r = Some (l\<lparr>indexMap := Some ?m, allocs := allocs l + 2\<rparr>)"
    using none by (simp add: createIndexMap_def Let_def)
  moreover have "originalShape ?m = Some (outputShape l)"
    using originalShape_encoded[of r ?fm] shp by simp
  ultimately show ?thesis
    using shp sl fillIndexMap_content(1)[OF p ish osh' tbl]
      fillIndexMap_content(2)[OF p ish osh' tbl, where r = r]
    by auto
qed

theorem createIndexMap_content_witness:
  "\<exists>l' m. createIndexMap ((example_layer True ''channels_first'')
                \<lparr>inputShape := [2, 2, 2, 1], outputShape := [2, 3, 3, 1]\<rparr>)
              (Some example_table) False = Some l' \<and>
     indexMap l' = Some m \<and> originalShape m = Some [2, 3, 3, 1] \<and>
     ndget (tensor (fillIndexMap ((example_layer True ''channels_first'')
                \<lparr>inputShape := [2, 2, 2, 1], outputShape := [2, 3, 3, 1]\<rparr>) example_table))
       [0, 1, 0, 0] = Some 10 \<and>
     ndget (tensor (fillIndexMap ((example_layer True ''channels_first'')
                \<lparr>inputShape := [2, 2, 2, 1], outputShape := [2, 3, 3, 1]\<rparr>) example_table))
       [0, 0, 0, 0] = Some (- 1) \<and>
     ta_get (texels m) 3 = Some 10"
proof -
  let ?L = "(example_layer True ''channels_first'')\<lparr>inputShape := [2, 2, 2, 1], outputShape := [2, 3, 3, 1]\<rparr>"
  have h1: "indexMap ?L = None" by code_simp
  have h2: "padding ?L = [[1, 0], [0, 1], [0, 0]]" by code_simp
  have h3: "inputShape ?L = [2, 2, 2, 1]" by code_simp
  have h4: "outputShape ?L =
        (if dataFormat ?L = ''channels_first''
         then [2, 2 + 1 + 0, 2 + 0 + 1, 1 + 0 + 0]
         else [2 + 1 + 0, 2 + 0 + 1, 2 + 0 + 0, 1])" by code_simp
  have h5: "shape example_table = inputShape ?L" by code_simp
  have h6: "length (data example_table) = prod_list (shape example_table)" by code_simp
  have b1: "in_box [0, 1, 0, 0] (outputShape ?L)" by code_simp
  have b2: "in_box [0, 0, 0, 0] (outputShape ?L)" by code_simp
  have r1: "in_region (sliceStart ?L) (inputShape ?L) [0, 1, 0, 0]" by code_simp
  have r2: "\<not> in_region (sliceStart ?L) (inputShape ?L) [0, 0, 0, 0]" by code_simp
  have v1: "data example_table ! rm_index (inputShape ?L) (map2 (-) [0, 1, 0, 0] (sliceStart ?L)) = 10"
    by code_simp
  have k: "rm_index (outputShape ?L) [0, 1, 0, 0] = 3" by code_simp
  from createIndexMap_content[OF h1 h2 h3 h4 h5 h6, of False]
  obtain l' m where c: "createIndexMap ?L (Some example_table) False = Some l'"
    "indexMap l' = Some m" "originalShape m = Some (outputShape ?L)"
    "\<And>j. in_box j (outputShape ?L) \<Longrightarrow>
        ndget (tensor (fillIndexMap ?L example_table)) j =
          Some (if in_region (sliceStart ?L) (inputShape ?L) j
                then data example_table ! rm_index (inputShape ?L) (map2 (-) j (sliceStart ?L))
                else - 1) \<and>
        ta_get (texels m) (rm_index (outputShape ?L) j) = ndget (tensor (fillIndexMap ?L example_table)) j"
    by blast
  have "ndget (tensor (fillIndexMap ?L example_table)) [0, 1, 0, 0] = Some 10"
    using c(4)[OF b1] r1 v1 by simp
  moreover have "ndget (tensor (fillIndexMap ?L example_table)) [0, 0, 0, 0] = Some (- 1)"
    using c(4)[OF b2] r2 by simp
  moreover have "ta_get (texels m) 3 = Some 10"
    using c(4)[OF b1] r1 v1 k by simp
  moreover have "outputShape ?L = [2, 3, 3, 1]" by simp
  ultimately show ?thesis using c(1,2,3) by auto
qed

section \<open>The GPU path\<close>

lemma texelFetch_offset:
  assumes sh: "glTextureShape x = [R, C]" and k: "k < R * C" "k < length (texels x)"
  shows "texelFetch x (int k mod int C) (int k div int C) = texels x ! k"
proof -
  have C: "0 < C" using k(1) by (cases C) simp_all
  have r: "k div C < R" using k(1) by (simp add: less_mult_imp_div_less)
  have c: "k mod C < C" using C by simp
  have e: "k div C * C + k mod C = k" by simp
  have "int k mod int C = int (k mod C)" "int k div int C = int (k div C)"
    by (simp_all add: zmod_int zdiv_int)
  then show ?thesis using sh r c e k(2)
    by (simp add: texelFetch_def ta_get_def coerce_def)
qed

lemma mapInput_eval:
  assumes "ta_get (texels m) t = Some e"
  shows "mapInput x m C t =
         (if e \<noteq> - 1 then texelFetch x (e mod int C) (e div int C) else zero_elem (arrayType x))"
  using assms by (simp add: mapInput_def Let_def coerce_def)

lemma run_result:
  assumes o: "originalShape out = Some osh"
  shows "host_view (if b then readback (runProgram out x m C) else runProgram out x m C) =
           mk_ndarray (take (prod_list osh) (map (mapInput x m C) [0..<prod_list (glTextureShape out)])) osh"
    and "oid (if b then readback (runProgram out x m C) else runProgram out x m C) = oid out"
    and "originalShape (if b then readback (runProgram out x m C) else runProgram out x m C) = Some osh"
    and "glTextureShape (if b then readback (runProgram out x m C) else runProgram out x m C)
           = glTextureShape out"
    and "b \<Longrightarrow> tensor (if b then readback (runProgram out x m C) else runProgram out x m C)
           = host_view (if b then readback (runProgram out x m C) else runProgram out x m C)"
  using o
  by (cases b; simp add: host_view_def texels_def readback_def runProgram_def
      transferFromGLTexture_def reshapeFrom2D_def reshapeFrom2DSquare_def Let_def mk_ndarray_sel)+

lemma run_result_get:
  assumes o: "originalShape out = Some osh" "prod_list osh \<le> prod_list (glTextureShape out)"
    and j: "in_box j osh"
  shows "ndget (host_view (if b then readback (runProgram out x m C) else runProgram out x m C)) j
         = Some (mapInput x m C (rm_index osh j))"
  using rm_index_less[OF j] o(2)
  by (simp only: run_result(1)[OF o(1)]) (simp add: ndget_mk_ndarray ta_get_def)

lemma callGPU_plain:
  "glTexture x = None \<Longrightarrow> callGPU l x = callGPU l (createGLTexture (reshapeTo2DSquare x))"
  by (simp add: callGPU_def createGLTexture_def)

lemma callGPU_fresh_eq:
  assumes "glTexture x = Some tex" "originalShape x = Some ish" "indicesForReshaped x = Some tbl"
    and "indexMap l = None" "output_tensor l = None" "mapInputProgram l"
    and M: "M = createGLTexture
               (if is2DReshaped x
                then reshapeTo2D (fillIndexMap (l\<lparr>inputShape := ish, outputShape := padded_shape l ish\<rparr>) tbl)
                else reshapeTo2DSquare (fillIndexMap (l\<lparr>inputShape := ish, outputShape := padded_shape l ish\<rparr>) tbl))"
    and B: "B = createGLTexture
                  (if is2DReshaped x
                   then reshapeTo2D (new_Tensor (allocs l + 2) [] (padded_shape l ish) Float32Array)
                   else reshapeTo2DSquare (new_Tensor (allocs l + 2) [] (padded_shape l ish) Float32Array))"
  shows "callGPU l x =
    Some (l\<lparr>inputShape := ish, outputShape := padded_shape l ish,
            indexMap := Some M, allocs := allocs l + 3,
            output_tensor := Some (if outbound l = []
                                   then readback (runProgram B x M (glTextureShape x ! 1))
                                   else runProgram B x M (glTextureShape x ! 1))\<rparr>, x)"
  using assms(1-6) unfolding M B
  by (simp add: callGPU_def createIndexMap_def padded_shape_def Let_def)

lemma callGPU_cached_eq:
  assumes "glTexture x = Some tex" "originalShape x = Some ish"
    and "indexMap l = Some m" "output_tensor l = Some out" "mapInputProgram l"
  shows "callGPU l x =
    Some (l\<lparr>inputShape := ish, outputShape := padded_shape l ish,
            output_tensor := Some (if outbound l = []
                                   then readback (runProgram out x m (glTextureShape x ! 1))
                                   else runProgram out x m (glTextureShape x ! 1))\<rparr>, x)"
  using assms
  by (simp add: callGPU_def createIndexMap_def padded_shape_def Let_def)

lemma gpu_element:
  assumes x: "gpu_ready x ish" and m: "index_map_for l ish m"
    and o: "output_buffer_for l ish out" and j: "in_box j (padded_shape l ish)"
  shows "ndget (host_view (if b then readback (runProgram out x m (glTextureShape x ! 1))
                           else runProgram out x m (glTextureShape x ! 1))) j
         = Some (padded (host_view x) (pad_origin l) j)"
proof -
  let ?osh = "padded_shape l ish"
  let ?C = "glTextureShape x ! 1"
  let ?n = "prod_list ish"
  have o1: "originalShape out = Some ?osh" "prod_list ?osh \<le> prod_list (glTextureShape out)"
    using o by (simp_all add: output_buffer_for_def)
  have rb: "ndget (host_view (if b then readback (runProgram out x m ?C) else runProgram out x m ?C)) j
            = Some (mapInput x m ?C (rm_index ?osh j))"
    by (rule run_result_get[OF o1 j])
  have e: "ta_get (texels m) (rm_index ?osh j) =
              Some (if in_region (pad_origin l) ish j
                    then int (rm_index ish (map2 (-) j (pad_origin l)))
                    else - 1)"
    using m j unfolding index_map_for_def list_all_iff set_indices by simp
  have hv: "host_view x = mk_ndarray (take ?n (texels x)) ish"
    using x by (simp add: gpu_ready_def host_view_def)
  have ty: "zero_elem (arrayType x) = F32 0" using x by (simp add: gpu_ready_def Float32Array_def)
  obtain R C where tsh: "glTextureShape x = [R, C]"
    using x by (auto simp: gpu_ready_def length_Suc_conv eval_nat_numeral)
  have sz: "?n \<le> R * C" "?n \<le> length (texels x)" using x tsh by (simp_all add: gpu_ready_def)
  show ?thesis
  proof (cases "in_region (pad_origin l) ish j")
    case True
    let ?k = "rm_index ish (map2 (-) j (pad_origin l))"
    have k: "?k < ?n" using True rm_index_less by (simp add: in_region_def)
    have "texelFetch x (int ?k mod int C) (int ?k div int C) = texels x ! ?k"
      by (rule texelFetch_offset[OF tsh]) (use k sz in simp_all)
    then have "mapInput x m ?C (rm_index ?osh j) = texels x ! ?k"
      using mapInput_eval[OF e, of x ?C] True tsh by simp
    moreover have "padded (host_view x) (pad_origin l) j = texels x ! ?k"
      using True k sz by (simp add: padded_def hv mk_ndarray_sel ndget_mk_ndarray ta_get_def coerce_def)
    ultimately show ?thesis using rb by simp
  next
    case False
    then have "mapInput x m ?C (rm_index ?osh j) = F32 0"
      using mapInput_eval[OF e, of x ?C] ty by simp
    moreover have "padded (host_view x) (pad_origin l) j = F32 0"
      using False by (simp add: padded_def hv mk_ndarray_sel)
    ultimately show ?thesis using rb by simp
  qed
qed

lemma output_buffer_for_fresh:
  assumes p: "padding l = [[b0, a0], [b1, a1], [b2, a2]]"
  shows "output_buffer_for l [d0, d1, d2, d3]
     (createGLTexture
        (if r then reshapeTo2D (new_Tensor k [] (padded_shape l [d0, d1, d2, d3]) ty)
         else reshapeTo2DSquare (new_Tensor k [] (padded_shape l [d0, d1, d2, d3]) ty)))"
proof -
  let ?N = "new_Tensor k [] (padded_shape l [d0, d1, d2, d3]) ty"
  have s: "shape (tensor ?N) = padded_shape l [d0, d1, d2, d3]"
    by (simp add: new_Tensor_def mk_ndarray_sel)
  have ne: "shape (tensor ?N) \<noteq> []"
    using s padded_shape_eval[OF p, of d0 d1 d2 d3] by (cases "dataFormat l = ''channels_first''") simp_all
  show ?thesis
    using originalShape_encoded[of r ?N] texture_holds_shape[OF ne, of r] s
    by (simp add: output_buffer_for_def)
qed

lemma output_buffer_for_run:
  assumes "output_buffer_for l ish out"
  shows "output_buffer_for l ish (if b then readback (runProgram out x m C) else runProgram out x m C)"
proof -
  have o: "originalShape out = Some (padded_shape l ish)"
    and le: "prod_list (padded_shape l ish) \<le> prod_list (glTextureShape out)"
    using assms by (simp_all add: output_buffer_for_def)
  show ?thesis
    unfolding output_buffer_for_def run_result(3)[OF o] run_result(4)[OF o] using le by simp
qed

lemma index_map_for_cong:
  "padding l' = padding l \<Longrightarrow> dataFormat l' = dataFormat l \<Longrightarrow>
   index_map_for l' ish m = index_map_for l ish m"
  by (simp add: index_map_for_def padded_shape_def pad_origin_def)

lemma output_buffer_for_cong:
  "padding l' = padding l \<Longrightarrow> dataFormat l' = dataFormat l \<Longrightarrow>
   output_buffer_for l' ish out = output_buffer_for l ish out"
  by (simp add: output_buffer_for_def padded_shape_def)

lemma shape_run_result:
  assumes "output_buffer_for l ish out"
  shows "shape (host_view (if b then readback (runProgram out x m C) else runProgram out x m C))
     = padded_shape l ish"
proof -
  have o: "originalShape out = Some (padded_shape l ish)"
    using assms by (simp add: output_buffer_for_def)
  show ?thesis
    unfolding run_result(1)[OF o] by (simp add: mk_ndarray_sel)
qed

lemma callGPU_ready:
  assumes p: "padding l = [[b0, a0], [b1, a1], [b2, a2]]"
    and prog: "mapInputProgram l"
    and x: "gpu_ready x [d0, d1, d2, d3]"
    and c: "(indexMap l = None \<and> output_tensor l = None) \<or> cache_ok l [d0, d1, d2, d3]"
  shows "\<exists>l' out. callGPU l x = Some (l', x) \<and> output_tensor l' = Some out \<and>
     shape (host_view out) = padded_shape l [d0, d1, d2, d3] \<and>
     (\<forall>j. in_box j (padded_shape l [d0, d1, d2, d3]) \<longrightarrow>
        ndget (host_view out) j = Some (padded (host_view x) (pad_origin l) j)) \<and>
     (outbound l = [] \<longrightarrow> tensor out = host_view out) \<and>
     cache_ok l' [d0, d1, d2, d3] \<and>
     padding l' = padding l \<and> dataFormat l' = dataFormat l \<and> gpu l' = gpu l \<and>
     mapInputProgram l' \<and> outbound l' = outbound l \<and>
     (cache_ok l [d0, d1, d2, d3] \<longrightarrow>
        indexMap l' = indexMap l \<and>
        map_option oid (output_tensor l') = map_option oid (output_tensor l) \<and>
        allocs l' = allocs l)"
proof -
  let ?sh = "[d0, d1, d2, d3]"
  let ?C = "glTextureShape x ! 1"
  define t where "t = (outbound l = [])"
  obtain tex where tex: "glTexture x = Some tex" using x by (auto simp: gpu_ready_def)
  have os: "originalShape x = Some ?sh" using x by (simp add: gpu_ready_def)
  have tb: "indicesForReshaped x = Some (createIndicesFor2DReshaped ?sh)"
    using x by (simp add: gpu_ready_def)
  from c show ?thesis
  proof
    assume fresh: "indexMap l = None \<and> output_tensor l = None"
    let ?l1 = "l\<lparr>inputShape := ?sh, outputShape := padded_shape l ?sh\<rparr>"
    define M where "M = createGLTexture
               (if is2DReshaped x
                then reshapeTo2D (fillIndexMap ?l1 (createIndicesFor2DReshaped ?sh))
                else reshapeTo2DSquare (fillIndexMap ?l1 (createIndicesFor2DReshaped ?sh)))"
    define B :: "'a f32 Tensor" where "B = createGLTexture
                  (if is2DReshaped x
                   then reshapeTo2D (new_Tensor (allocs l + 2) [] (padded_shape l ?sh) Float32Array)
                   else reshapeTo2DSquare (new_Tensor (allocs l + 2) [] (padded_shape l ?sh) Float32Array))"
    define out where "out = (if t then readback (runProgram B x M ?C) else runProgram B x M ?C)"
    let ?l' = "l\<lparr>inputShape := ?sh, outputShape := padded_shape l ?sh, indexMap := Some M,
                  allocs := allocs l + 3, output_tensor := Some out\<rparr>"
    have eq: "callGPU l x = Some (?l', x)"
      using callGPU_fresh_eq[OF tex os tb _ _ prog M_def B_def] fresh
      unfolding out_def t_def by simp
    have M: "index_map_for l ?sh M" unfolding M_def by (rule index_map_for_fresh[OF p])
    have O: "output_buffer_for l ?sh B" unfolding B_def by (rule output_buffer_for_fresh[OF p])
    have el: "ndget (host_view out) j = Some (padded (host_view x) (pad_origin l) j)"
      if "in_box j (padded_shape l ?sh)" for j
      unfolding out_def by (rule gpu_element[OF x M O that])
    have shp: "shape (host_view out) = padded_shape l ?sh"
      unfolding out_def by (rule shape_run_result[OF O])
    have ten: "outbound l = [] \<longrightarrow> tensor out = host_view out"
      using O run_result(5)[of B "padded_shape l ?sh" t x M ?C]
      unfolding out_def t_def output_buffer_for_def by blast
    have "index_map_for ?l' ?sh M"
      by (rule index_map_for_cong[THEN iffD2, OF _ _ M]) simp_all
    moreover have "output_buffer_for ?l' ?sh out"
      unfolding out_def
      by (rule output_buffer_for_cong[THEN iffD2, OF _ _ output_buffer_for_run[OF O]]) simp_all
    ultimately have ck: "cache_ok ?l' ?sh"
      by (simp add: cache_ok_def)
    have nc: "\<not> cache_ok l ?sh" using fresh by (simp add: cache_ok_def)
    show ?thesis
      using eq el ck nc shp ten prog by simp
  next
    assume ok: "cache_ok l [d0, d1, d2, d3]"
    then obtain m out0 where m: "indexMap l = Some m" and o: "output_tensor l = Some out0"
      and M: "index_map_for l ?sh m" and O: "output_buffer_for l ?sh out0"
      by (auto simp: cache_ok_def split: option.splits)
    define out where "out = (if t then readback (runProgram out0 x m ?C) else runProgram out0 x m ?C)"
    let ?l' = "l\<lparr>inputShape := ?sh, outputShape := padded_shape l ?sh, output_tensor := Some out\<rparr>"
    have eq: "callGPU l x = Some (?l', x)"
      using callGPU_cached_eq[OF tex os m o prog] unfolding out_def t_def by simp
    have el: "ndget (host_view out) j = Some (padded (host_view x) (pad_origin l) j)"
      if "in_box j (padded_shape l ?sh)" for j
      unfolding out_def by (rule gpu_element[OF x M O that])
    have shp: "shape (host_view out) = padded_shape l ?sh"
      unfolding out_def by (rule shape_run_result[OF O])
    have ten: "outbound l = [] \<longrightarrow> tensor out = host_view out"
      using O run_result(5)[of out0 "padded_shape l ?sh" t x m ?C]
      unfolding out_def t_def output_buffer_for_def by blast
    have "index_map_for ?l' ?sh m"
      by (rule index_map_for_cong[THEN iffD2, OF _ _ M]) simp_all
    moreover have "output_buffer_for ?l' ?sh out"
      unfolding out_def
      by (rule output_buffer_for_cong[THEN iffD2, OF _ _ output_buffer_for_run[OF O]]) simp_all
    ultimately have ck: "cache_ok ?l' ?sh"
      using m by (simp add: cache_ok_def)
    have id: "oid out = oid out0"
      using O run_result(2)[of out0 "padded_shape l ?sh" t x m ?C]
      unfolding out_def output_buffer_for_def by blast
    show ?thesis
      using eq el ck shp ten prog m o id by simp
  qed
qed

lemma callGPU_input_run:
  assumes p: "padding l = [[b0, a0], [b1, a1], [b2, a2]]"
    and prog: "mapInputProgram l"
    and x: "gpu_input x [d0, d1, d2, d3]"
    and c: "(indexMap l = None \<and> output_tensor l = None) \<or> cache_ok l [d0, d1, d2, d3]"
  shows "\<exists>l' x' out. callGPU l x = Some (l', x') \<and> output_tensor l' = Some out \<and>
     shape (host_view out) = padded_shape l [d0, d1, d2, d3] \<and>
     (\<forall>j. in_box j (padded_shape l [d0, d1, d2, d3]) \<longrightarrow>
        ndget (host_view out) j = Some (padded (logical x) (pad_origin l) j)) \<and>
     (outbound l = [] \<longrightarrow> tensor out = host_view out) \<and>
     cache_ok l' [d0, d1, d2, d3] \<and>
     padding l' = padding l \<and> dataFormat l' = dataFormat l \<and> gpu l' = gpu l \<and>
     mapInputProgram l' \<and> outbound l' = outbound l \<and>
     (cache_ok l [d0, d1, d2, d3] \<longrightarrow>
        indexMap l' = indexMap l \<and>
        map_option oid (output_tensor l') = map_option oid (output_tensor l) \<and>
        allocs l' = allocs l)"
proof (cases "glTexture x = None")
  case True
  then have xp: "glTexture x = None" "arrayType x = Float32Array" "shape (tensor x) = [d0, d1, d2, d3]"
    "contiguous (tensor x)"
    using x by (simp_all add: gpu_input_def)
  define e where "e = createGLTexture (reshapeTo2DSquare x)"
  have e': "e = createGLTexture (if False then reshapeTo2D x else reshapeTo2DSquare x)"
    by (simp add: e_def)
  have ne: "shape (tensor x) \<noteq> []" using xp(3) by simp
  have rdy: "gpu_ready e [d0, d1, d2, d3]"
    unfolding e' using gpu_ready_encoded[OF xp(2) ne, of False] xp(3) by simp
  have pe: "padded (host_view e) los j = padded (tensor x) los j" for los j
    unfolding e' by (rule padded_host_view_encoded[OF xp(2,4)])
  have lx: "logical x = tensor x" using True by (simp add: logical_def)
  have "callGPU l x = callGPU l e"
    unfolding e_def by (rule callGPU_plain[OF xp(1)])
  then show ?thesis
    using callGPU_ready[OF p prog rdy c] pe lx by auto
next
  case False
  then have rdy: "gpu_ready x [d0, d1, d2, d3]" using x by (auto simp: gpu_input_def)
  have lx: "logical x = host_view x" using False by (auto simp: logical_def)
  show ?thesis
    using callGPU_ready[OF p prog rdy c] lx by auto
qed

text \<open>
  Claim C3, as stated, speaks of every rank-4 input and every configuration. Two
  invocations refute it. An instance whose index map and output buffer were built by an
  earlier invocation, for the shape \<open>[2,2,2,1]\<close>, keeps them for an input of shape
  \<open>[1,1,1,1]\<close>: the GPU path returns a tensor of shape \<open>[3,3,2,1]\<close>, the CPU path one
  of shape \<open>[2,2,1,1]\<close>. On a new instance, a host tensor that is a view with exchanged
  axes is uploaded as its buffer is stored: the GPU path holds 2 at \<open>[1,0,1,0]\<close> where
  the CPU path holds 3.
\<close>

theorem callGPU_differs_from_callCPU_counterexample:
  "map_option (shape \<circ> tensor)
     (gpu_output (example_layer True ''channels_last'') ramp_input) = Some [3, 3, 2, 1] \<and>
   map_option (shape \<circ> tensor)
     (gpu_output (after_callGPU (example_layer True ''channels_last'') ramp_input) small_input)
     = Some [3, 3, 2, 1] \<and>
   map_option (shape \<circ> tensor)
     (cpu_output (after_callGPU (example_layer True ''channels_last'') ramp_input) small_input)
     = Some [2, 2, 1, 1] \<and>
   map_option (elem_at [1, 0, 1, 0])
     (gpu_output (example_layer True ''channels_last'') strided_input) = Some (Some (F32 2)) \<and>
   map_option (elem_at [1, 0, 1, 0])
     (cpu_output (example_layer True ''channels_last'') strided_input) = Some (Some (F32 3))"
  by code_simp

text \<open>
  Claim C3, amended. For an input of rank 4 that lives in host memory as a contiguous
  row-major tensor, for both axis orders, and for an instance whose index map and output
  buffer are absent or fit the shape of the input: the GPU path returns, and the tensor
  that its output texture decodes to has the shape of the output of the CPU path and
  agrees with it at every index vector of that shape. When the instance is the last stage
  of its pipeline, that decoded tensor is the host tensor of the output (the readback).
  The GPU path here is \<^verbatim>\<open>_callGPU\<close> with the tensor container and the program as the
  specification describes them: each output texel is taken from the source texture at the
  offset named by the index map, or is zero where the sentinel is present.
\<close>

theorem callGPU_equals_callCPU:
  assumes p: "padding l = [[b0, a0], [b1, a1], [b2, a2]]"
    and prog: "mapInputProgram l"
    and x: "glTexture x = None" "arrayType x = Float32Array" "shape (tensor x) = [d0, d1, d2, d3]"
      "contiguous (tensor x)"
    and c: "(indexMap l = None \<and> output_tensor l = None) \<or> cache_ok l [d0, d1, d2, d3]"
  shows "\<exists>lg xg og oc. callGPU l x = Some (lg, xg) \<and> output_tensor lg = Some og \<and>
     output_tensor (fst (callCPU l x)) = Some oc \<and>
     shape (host_view og) = shape (tensor oc) \<and>
     (\<forall>j. in_box j (shape (tensor oc)) \<longrightarrow> ndget (host_view og) j = ndget (tensor oc) j) \<and>
     (outbound l = [] \<longrightarrow> tensor og = host_view og)"
proof -
  have gi: "gpu_input x [d0, d1, d2, d3]" using x by (simp add: gpu_input_def)
  have lx: "logical x = tensor x" using x(1) by (simp add: logical_def)
  have st: "length (stride (tensor x)) = 4" using x(3,4) by (simp add: contiguous_def)
  obtain lg xg og where g: "callGPU l x = Some (lg, xg)" "output_tensor lg = Some og"
    "shape (host_view og) = padded_shape l [d0, d1, d2, d3]"
    "\<And>j. in_box j (padded_shape l [d0, d1, d2, d3]) \<Longrightarrow>
        ndget (host_view og) j = Some (padded (tensor x) (pad_origin l) j)"
    "outbound l = [] \<longrightarrow> tensor og = host_view og"
    using callGPU_input_run[OF p prog gi c] unfolding lx by blast
  obtain oc where cpu: "output_tensor (fst (callCPU l x)) = Some oc"
    "shape (tensor oc) = padded_shape l (shape (tensor x))"
    "\<And>j. in_box j (padded_shape l (shape (tensor x))) \<Longrightarrow>
        ndget (tensor oc) j = Some (padded (tensor x) (pad_origin l) j)"
    using callCPU_get[OF x(3) st p] by blast
  show ?thesis using g cpu x(3) by auto
qed

theorem callGPU_equals_callCPU_witness:
  "\<exists>lg xg og oc. callGPU (example_layer True ''channels_first'') ramp_input = Some (lg, xg) \<and>
     output_tensor lg = Some og \<and>
     output_tensor (fst (callCPU (example_layer True ''channels_first'') ramp_input)) = Some oc \<and>
     shape (tensor og) = [2, 3, 3, 1] \<and> shape (tensor oc) = [2, 3, 3, 1] \<and>
     ndget (tensor og) [1, 1, 0, 0] = ndget (tensor oc) [1, 1, 0, 0] \<and>
     ndget (tensor oc) [1, 1, 0, 0] = Some (F32 5)"
proof -
  let ?L = "example_layer True ''channels_first''"
  have h1: "padding ?L = [[1, 0], [0, 1], [0, 0]]" by code_simp
  have h2: "mapInputProgram ?L" by code_simp
  have h3: "outbound ?L = []" by code_simp
  have h4: "glTexture ramp_input = None" by code_simp
  have h5: "arrayType ramp_input = (Float32Array :: int f32 array_type)" by code_simp
  have h6: "shape (tensor ramp_input) = [2, 2, 2, 1]" by code_simp
  have h7: "contiguous (tensor ramp_input)" by code_simp
  have h8: "(indexMap ?L = None \<and> output_tensor ?L = None) \<or> cache_ok ?L [2, 2, 2, 1]"
    by code_simp
  have s: "map_option (shape \<circ> tensor) (output_tensor (fst (callCPU ?L ramp_input))) = Some [2, 3, 3, 1]"
    by code_simp
  have v: "map_option (\<lambda>t. ndget (tensor t) [1, 1, 0, 0]) (output_tensor (fst (callCPU ?L ramp_input)))
           = Some (Some (F32 5))"
    by code_simp
  from callGPU_equals_callCPU[OF h1 h2 h4 h5 h6 h7 h8]
  obtain lg xg og oc where c: "callGPU ?L ramp_input = Some (lg, xg)" "output_tensor lg = Some og"
     "output_tensor (fst (callCPU ?L ramp_input)) = Some oc"
     "shape (host_view og) = shape (tensor oc)"
     "\<And>j. in_box j (shape (tensor oc)) \<Longrightarrow> ndget (host_view og) j = ndget (tensor oc) j"
     "outbound ?L = [] \<longrightarrow> tensor og = host_view og"
    by blast
  have t: "tensor og = host_view og" using c(6) h3 by simp
  have sc: "shape (tensor oc) = [2, 3, 3, 1]" using s c(3) by simp
  have "ndget (tensor og) [1, 1, 0, 0] = ndget (tensor oc) [1, 1, 0, 0]"
    unfolding t by (rule c(5)) (simp add: sc in_box_def)
  moreover have "ndget (tensor oc) [1, 1, 0, 0] = Some (F32 5)" using v c(3) by simp
  ultimately show ?thesis using c(1,2,3,4) sc t by auto
qed

section \<open>Caching across invocations\<close>

lemma callGPU_Some_fields:
  assumes "callGPU l x = Some (l', x')"
  shows "indexMap l' \<noteq> None \<and> output_tensor l' \<noteq> None \<and> mapInputProgram l' \<and> gpu l' = gpu l"
  using assms
  by (auto simp: callGPU_def createIndexMap_def Let_def split: option.splits if_splits)

lemma oid_readback: "oid (readback t) = oid t"
  by (simp add: readback_def transferFromGLTexture_def reshapeFrom2D_def reshapeFrom2DSquare_def
      Let_def split: option.splits)

lemma callGPU_cached_frame:
  assumes m: "indexMap l = Some m" and o: "output_tensor l = Some out" and prog: "mapInputProgram l"
    and x: "glTexture x = None \<or> originalShape x \<noteq> None"
  shows "\<exists>l' x' out'. callGPU l x = Some (l', x') \<and> indexMap l' = Some m \<and>
           output_tensor l' = Some out' \<and> oid out' = oid out \<and> allocs l' = allocs l"
proof -
  define x1 where "x1 = (if glTexture x = None then createGLTexture (reshapeTo2DSquare x) else x)"
  have "originalShape x1 \<noteq> None"
    using x by (auto simp: x1_def createGLTexture_def reshapeTo2DSquare_def Let_def)
  then obtain ish where ish: "originalShape x1 = Some ish" by auto
  have "callGPU l x =
      Some (l\<lparr>inputShape := ish, outputShape := padded_shape l ish,
              output_tensor := Some (if outbound l = []
                 then readback (runProgram out x1 m (glTextureShape x1 ! 1))
                 else runProgram out x1 m (glTextureShape x1 ! 1))\<rparr>, x1)"
    using m o prog ish unfolding x1_def
    by (simp add: callGPU_def createIndexMap_def padded_shape_def Let_def)
  then show ?thesis using m by (simp add: oid_readback runProgram_def)
qed

text \<open>
  Claim C7. After a first invocation on the GPU path has built the index map and the
  output buffer, a later invocation with any input, of the same shape or not, returns and
  leaves the field of the index map as it was and the field of the output buffer on the
  same object: nothing is rebuilt and no tensor is allocated. The input is a host tensor
  or a tensor that carries its encoding.
\<close>

theorem call_keeps_index_map_and_output_buffer:
  assumes g: "gpu l0" and first: "call l0 x0 = Some (l1, x0', r1)"
    and x: "glTexture x = None \<or> originalShape x \<noteq> None"
  shows "\<exists>l2 x' r2. call l1 x = Some (l2, x', r2) \<and>
           indexMap l1 \<noteq> None \<and> output_tensor l1 \<noteq> None \<and>
           indexMap l2 = indexMap l1 \<and>
           map_option oid (output_tensor l2) = map_option oid (output_tensor l1) \<and>
           allocs l2 = allocs l1"
proof -
  have "callGPU l0 x0 = Some (l1, x0')"
    using g first by (auto simp: call_def split: option.splits)
  from callGPU_Some_fields[OF this] obtain m out where
    f: "indexMap l1 = Some m" "output_tensor l1 = Some out" "mapInputProgram l1" "gpu l1"
    using g by auto
  from callGPU_cached_frame[OF f(1,2,3) x] obtain l2 x' out' where
    "callGPU l1 x = Some (l2, x')" "indexMap l2 = Some m" "output_tensor l2 = Some out'"
    "oid out' = oid out" "allocs l2 = allocs l1"
    by blast
  then show ?thesis using f by (simp add: call_def)
qed

theorem call_keeps_index_map_and_output_buffer_witness:
  "\<exists>l1 x1 r1 l2 x2 r2.
     call (example_layer True ''channels_last'') ramp_input = Some (l1, x1, r1) \<and>
     call l1 small_input = Some (l2, x2, r2) \<and>
     shape (tensor small_input) \<noteq> shape (tensor ramp_input) \<and>
     indexMap l1 \<noteq> None \<and> output_tensor l1 \<noteq> None \<and>
     indexMap l2 = indexMap l1 \<and>
     map_option oid (output_tensor l2) = map_option oid (output_tensor l1) \<and>
     allocs l2 = allocs l1"
proof -
  let ?L = "example_layer True ''channels_last''"
  have g: "gpu ?L" by code_simp
  have ne: "call ?L ramp_input \<noteq> None" by code_simp
  then obtain l1 x1 r1 where first: "call ?L ramp_input = Some (l1, x1, r1)"
    by (cases "call ?L ramp_input") auto
  have x: "glTexture small_input = None \<or> originalShape small_input \<noteq> None" by code_simp
  have d: "shape (tensor small_input) \<noteq> shape (tensor ramp_input)" by code_simp
  from call_keeps_index_map_and_output_buffer[OF g first x] show ?thesis
    using first d by blast
qed

lemma padded_shape_cong:
  "padding l' = padding l \<Longrightarrow> dataFormat l' = dataFormat l \<Longrightarrow> padded_shape l' sh = padded_shape l sh"
  by (simp add: padded_shape_def)

lemma pad_origin_cong:
  "padding l' = padding l \<Longrightarrow> dataFormat l' = dataFormat l \<Longrightarrow> pad_origin l' = pad_origin l"
  by (simp add: pad_origin_def)

lemma invocations_cached:
  assumes "gpu l" "mapInputProgram l"
    and "padding l = [[b0, a0], [b1, a1], [b2, a2]]"
    and "cache_ok l [d0, d1, d2, d3]"
    and "\<forall>x\<in>set xs. gpu_input x [d0, d1, d2, d3]"
  shows "\<exists>ls. invocations l xs = Some ls \<and> length ls = length xs \<and>
     (\<forall>k<length xs. \<exists>out. output_tensor (ls ! k) = Some out \<and>
        shape (host_view out) = padded_shape l [d0, d1, d2, d3] \<and>
        (\<forall>j. in_box j (padded_shape l [d0, d1, d2, d3]) \<longrightarrow>
           ndget (host_view out) j = Some (padded (logical (xs ! k)) (pad_origin l) j)) \<and>
        (outbound l = [] \<longrightarrow> tensor out = host_view out) \<and>
        indexMap (ls ! k) = indexMap l \<and>
        map_option oid (output_tensor (ls ! k)) = map_option oid (output_tensor l) \<and>
        allocs (ls ! k) = allocs l)"
  using assms
proof (induction xs arbitrary: l)
  case Nil
  then show ?case by simp
next
  case (Cons x xs)
  let ?sh = "[d0, d1, d2, d3]"
  have xp: "gpu_input x ?sh"
    using Cons.prems(5) by simp
  from callGPU_input_run[OF Cons.prems(3,2) xp disjI2[OF Cons.prems(4)]]
  obtain l' x' out where s:
    "callGPU l x = Some (l', x')" "output_tensor l' = Some out"
    "shape (host_view out) = padded_shape l ?sh"
    "\<And>j. in_box j (padded_shape l ?sh) \<Longrightarrow>
        ndget (host_view out) j = Some (padded (logical x) (pad_origin l) j)"
    "outbound l = [] \<longrightarrow> tensor out = host_view out"
    "cache_ok l' ?sh" "padding l' = padding l" "dataFormat l' = dataFormat l" "gpu l' = gpu l"
    "mapInputProgram l'" "outbound l' = outbound l"
    "indexMap l' = indexMap l"
    "map_option oid (output_tensor l') = map_option oid (output_tensor l)"
    "allocs l' = allocs l"
    using Cons.prems(4) by blast
  have p': "padding l' = [[b0, a0], [b1, a1], [b2, a2]]" using s(7) Cons.prems(3) by simp
  have g': "gpu l'" using s(9) Cons.prems(1) by simp
  have rest: "\<forall>x\<in>set xs. gpu_input x ?sh"
    using Cons.prems(5) by simp
  from Cons.IH[OF g' s(10) p' s(6) rest]
  obtain ls where ls: "invocations l' xs = Some ls" "length ls = length xs"
    "\<And>k. k < length xs \<Longrightarrow> \<exists>out. output_tensor (ls ! k) = Some out \<and>
        shape (host_view out) = padded_shape l' ?sh \<and>
        (\<forall>j. in_box j (padded_shape l' ?sh) \<longrightarrow>
           ndget (host_view out) j = Some (padded (logical (xs ! k)) (pad_origin l') j)) \<and>
        (outbound l' = [] \<longrightarrow> tensor out = host_view out) \<and>
        indexMap (ls ! k) = indexMap l' \<and>
        map_option oid (output_tensor (ls ! k)) = map_option oid (output_tensor l') \<and>
        allocs (ls ! k) = allocs l'"
    by blast
  have ps: "padded_shape l' ?sh = padded_shape l ?sh" by (rule padded_shape_cong[OF s(7,8)])
  have po: "pad_origin l' = pad_origin l" by (rule pad_origin_cong[OF s(7,8)])
  have inv: "invocations l (x # xs) = Some (l' # ls)"
    using Cons.prems(1) s(1) ls(1) by (simp add: call_def)
  have "\<exists>out. output_tensor ((l' # ls) ! k) = Some out \<and>
        shape (host_view out) = padded_shape l ?sh \<and>
        (\<forall>j. in_box j (padded_shape l ?sh) \<longrightarrow>
           ndget (host_view out) j = Some (padded (logical ((x # xs) ! k)) (pad_origin l) j)) \<and>
        (outbound l = [] \<longrightarrow> tensor out = host_view out) \<and>
        indexMap ((l' # ls) ! k) = indexMap l \<and>
        map_option oid (output_tensor ((l' # ls) ! k)) = map_option oid (output_tensor l) \<and>
        allocs ((l' # ls) ! k) = allocs l" if k: "k < length (x # xs)" for k
  proof (cases k)
    case 0
    then show ?thesis using s by simp
  next
    case (Suc k')
    then have "k' < length xs" using k by simp
    from ls(3)[OF this] show ?thesis using Suc s(11,12,13,14) ps po by simp
  qed
  then show ?case using inv ls(2) by simp
qed

text \<open>
  Claim C8, as stated, speaks of every sequence of invocations with inputs of one shape.
  Two sequences on the GPU path refute its last part. On a new instance, two invocations
  with a host tensor that is a view with exchanged axes reuse the caches, and both outputs
  hold 2 at \<open>[1,0,1,0]\<close>, where the zero-padded input holds 3: the upload takes the buffer
  as it is stored. On an instance whose caches were built for the shape \<open>[2,2,2,1]\<close>,
  two invocations with inputs of shape \<open>[1,1,1,1]\<close> reuse the caches, and both outputs
  have the shape \<open>[3,3,2,1]\<close>, where the zero-padded input has the shape \<open>[2,2,1,1]\<close>.
\<close>

theorem invocations_same_shape_counterexample:
  "map_option (map (map_option (elem_at [1, 0, 1, 0]) \<circ> output_tensor))
     (invocations (example_layer True ''channels_last'') [strided_input, strided_input])
     = Some [Some (Some (F32 2)), Some (Some (F32 2))] \<and>
   padded (logical strided_input) (pad_origin (example_layer True ''channels_last'')) [1, 0, 1, 0]
     = F32 3 \<and>
   map_option (map (map_option oid \<circ> output_tensor))
     (invocations (example_layer True ''channels_last'') [strided_input, strided_input])
     = Some [Some 2, Some 2] \<and>
   map_option (shape \<circ> tensor)
     (gpu_output (example_layer True ''channels_last'') ramp_input) = Some [3, 3, 2, 1] \<and>
   map_option (map (map_option (shape \<circ> tensor) \<circ> output_tensor))
     (invocations (after_callGPU (example_layer True ''channels_last'') ramp_input)
        [small_input, small_input])
     = Some [Some [3, 3, 2, 1], Some [3, 3, 2, 1]] \<and>
   padded_shape (example_layer True ''channels_last'') (shape (tensor small_input)) = [2, 2, 1, 1]"
  by code_simp

text \<open>
  Claim C8, amended. For every sequence of invocations of one instance on the GPU path
  whose index map and output buffer are absent or fit the shape of the inputs, with inputs
  of one logical shape of rank 4, each a contiguous row-major host tensor or a tensor
  ready for the GPU: every invocation returns, the tensor that its output texture decodes
  to has the padded shape and holds the zero-padded logical tensor of the input of that
  invocation (it is the host tensor of the output when the instance is the last stage of
  its pipeline), and every invocation after the first has the index map of the first, the
  output object of the first, and allocates no tensor.
\<close>

theorem invocations_reuse_caches:
  assumes g: "gpu l" and prog: "mapInputProgram l"
    and p: "padding l = [[b0, a0], [b1, a1], [b2, a2]]"
    and c: "(indexMap l = None \<and> output_tensor l = None) \<or> cache_ok l [d0, d1, d2, d3]"
    and xs: "\<forall>x\<in>set xs. gpu_input x [d0, d1, d2, d3]"
  shows "\<exists>ls. invocations l xs = Some ls \<and> length ls = length xs \<and>
     (\<forall>k<length xs. \<exists>out. output_tensor (ls ! k) = Some out \<and>
        shape (host_view out) = padded_shape l [d0, d1, d2, d3] \<and>
        (\<forall>j. in_box j (padded_shape l [d0, d1, d2, d3]) \<longrightarrow>
           ndget (host_view out) j = Some (padded (logical (xs ! k)) (pad_origin l) j)) \<and>
        (outbound l = [] \<longrightarrow> tensor out = host_view out) \<and>
        (0 < k \<longrightarrow>
           indexMap (ls ! k) = indexMap (ls ! 0) \<and> indexMap (ls ! 0) \<noteq> None \<and>
           map_option oid (output_tensor (ls ! k)) = map_option oid (output_tensor (ls ! 0)) \<and>
           allocs (ls ! k) = allocs (ls ! 0)))"
proof (cases xs)
  case Nil
  then show ?thesis by simp
next
  case (Cons x xs')
  let ?sh = "[d0, d1, d2, d3]"
  have xp: "gpu_input x ?sh"
    using xs Cons by simp
  from callGPU_input_run[OF p prog xp c]
  obtain l' x' out where s:
    "callGPU l x = Some (l', x')" "output_tensor l' = Some out"
    "shape (host_view out) = padded_shape l ?sh"
    "\<And>j. in_box j (padded_shape l ?sh) \<Longrightarrow>
        ndget (host_view out) j = Some (padded (logical x) (pad_origin l) j)"
    "outbound l = [] \<longrightarrow> tensor out = host_view out"
    "cache_ok l' ?sh" "padding l' = padding l" "dataFormat l' = dataFormat l" "gpu l' = gpu l"
    "mapInputProgram l'" "outbound l' = outbound l"
    by blast
  have p': "padding l' = [[b0, a0], [b1, a1], [b2, a2]]" using s(7) p by simp
  have g': "gpu l'" using s(9) g by simp
  have im: "indexMap l' \<noteq> None" using s(6) by (auto simp: cache_ok_def split: option.splits)
  have rest: "\<forall>x\<in>set xs'. gpu_input x ?sh"
    using xs Cons by simp
  from invocations_cached[OF g' s(10) p' s(6) rest]
  obtain ls where ls: "invocations l' xs' = Some ls" "length ls = length xs'"
    "\<And>k. k < length xs' \<Longrightarrow> \<exists>out. output_tensor (ls ! k) = Some out \<and>
        shape (host_view out) = padded_shape l' ?sh \<and>
        (\<forall>j. in_box j (padded_shape l' ?sh) \<longrightarrow>
           ndget (host_view out) j = Some (padded (logical (xs' ! k)) (pad_origin l') j)) \<and>
        (outbound l' = [] \<longrightarrow> tensor out = host_view out) \<and>
        indexMap (ls ! k) = indexMap l' \<and>
        map_option oid (output_tensor (ls ! k)) = map_option oid (output_tensor l') \<and>
        allocs (ls ! k) = allocs l'"
    by blast
  have ps: "padded_shape l' ?sh = padded_shape l ?sh" by (rule padded_shape_cong[OF s(7,8)])
  have po: "pad_origin l' = pad_origin l" by (rule pad_origin_cong[OF s(7,8)])
  have inv: "invocations l xs = Some (l' # ls)"
    using g s(1) ls(1) Cons by (simp add: call_def)
  have "\<exists>out. output_tensor ((l' # ls) ! k) = Some out \<and>
        shape (host_view out) = padded_shape l ?sh \<and>
        (\<forall>j. in_box j (padded_shape l ?sh) \<longrightarrow>
           ndget (host_view out) j = Some (padded (logical (xs ! k)) (pad_origin l) j)) \<and>
        (outbound l = [] \<longrightarrow> tensor out = host_view out) \<and>
        (0 < k \<longrightarrow>
           indexMap ((l' # ls) ! k) = indexMap ((l' # ls) ! 0) \<and> indexMap ((l' # ls) ! 0) \<noteq> None \<and>
           map_option oid (output_tensor ((l' # ls) ! k)) = map_option oid (output_tensor ((l' # ls) ! 0)) \<and>
           allocs ((l' # ls) ! k) = allocs ((l' # ls) ! 0))" if k: "k < length xs" for k
  proof (cases k)
    case 0
    then show ?thesis using s Cons by simp
  next
    case (Suc k')
    then have "k' < length xs'" using k Cons by simp
    from ls(3)[OF this] show ?thesis using Suc ps po Cons im s(11) by simp
  qed
  then show ?thesis using inv ls(2) Cons by simp
qed

theorem invocations_reuse_caches_witness:
  "\<exists>ls. invocations (example_layer True ''channels_last'') [ramp_input, ones_input] = Some ls \<and>
     length ls = 2 \<and>
     indexMap (ls ! 1) = indexMap (ls ! 0) \<and> indexMap (ls ! 0) \<noteq> None \<and>
     map_option oid (output_tensor (ls ! 1)) = map_option oid (output_tensor (ls ! 0)) \<and>
     allocs (ls ! 1) = allocs (ls ! 0) \<and>
     (\<exists>out. output_tensor (ls ! 1) = Some out \<and> shape (tensor out) = [3, 3, 2, 1] \<and>
        ndget (tensor out) [1, 1, 1, 0] = Some (F32 1) \<and>
        ndget (tensor out) [1, 2, 1, 0] = Some (F32 0))"
proof -
  let ?L = "example_layer True ''channels_last''"
  let ?xs = "[ramp_input, ones_input]"
  have h1: "gpu ?L" by code_simp
  have h2: "mapInputProgram ?L" by code_simp
  have h3: "outbound ?L = []" by code_simp
  have h4: "padding ?L = [[1, 0], [0, 1], [0, 0]]" by code_simp
  have h5: "(indexMap ?L = None \<and> output_tensor ?L = None) \<or> cache_ok ?L [2, 2, 2, 1]"
    by code_simp
  have a: "gpu_input ramp_input [2, 2, 2, 1]" by code_simp
  have b: "gpu_input ones_input [2, 2, 2, 1]" by code_simp
  have h7: "\<forall>x\<in>set ?xs. gpu_input x [2, 2, 2, 1]"
    using a b by simp
  have ps: "padded_shape ?L [2, 2, 2, 1] = [3, 3, 2, 1]" by code_simp
  have v1: "padded (logical ones_input) (pad_origin ?L) [1, 1, 1, 0] = F32 1" by code_simp
  have v2: "padded (logical ones_input) (pad_origin ?L) [1, 2, 1, 0] = F32 0" by code_simp
  from invocations_reuse_caches[OF h1 h2 h4 h5 h7]
  obtain ls where c: "invocations ?L ?xs = Some ls" "length ls = length ?xs"
    "\<And>k. k < length ?xs \<Longrightarrow> \<exists>out. output_tensor (ls ! k) = Some out \<and>
        shape (host_view out) = padded_shape ?L [2, 2, 2, 1] \<and>
        (\<forall>j. in_box j (padded_shape ?L [2, 2, 2, 1]) \<longrightarrow>
           ndget (host_view out) j = Some (padded (logical (?xs ! k)) (pad_origin ?L) j)) \<and>
        (outbound ?L = [] \<longrightarrow> tensor out = host_view out) \<and>
        (0 < k \<longrightarrow>
           indexMap (ls ! k) = indexMap (ls ! 0) \<and> indexMap (ls ! 0) \<noteq> None \<and>
           map_option oid (output_tensor (ls ! k)) = map_option oid (output_tensor (ls ! 0)) \<and>
           allocs (ls ! k) = allocs (ls ! 0))"
    by blast
  from c(3)[of 1] h3 obtain out where o: "output_tensor (ls ! 1) = Some out"
    "shape (tensor out) = [3, 3, 2, 1]"
    "\<And>j. in_box j [3, 3, 2, 1] \<Longrightarrow>
           ndget (tensor out) j = Some (padded (logical ones_input) (pad_origin ?L) j)"
    "indexMap (ls ! 1) = indexMap (ls ! 0)" "indexMap (ls ! 0) \<noteq> None"
    "map_option oid (output_tensor (ls ! 1)) = map_option oid (output_tensor (ls ! 0))"
    "allocs (ls ! 1) = allocs (ls ! 0)"
    unfolding ps by auto
  have "ndget (tensor out) [1, 1, 1, 0] = Some (F32 1)"
    using o(3)[of "[1, 1, 1, 0]"] v1 by (simp add: in_box_def)
  moreover have "ndget (tensor out) [1, 2, 1, 0] = Some (F32 0)"
    using o(3)[of "[1, 2, 1, 0]"] v2 by (simp add: in_box_def)
  ultimately show ?thesis using c(1,2) o by auto
qed

end
